theory Spec2Isabelle
  imports Main
begin

section \<open>The installer of the TUI framework: \<^verbatim>\<open>tui_framework_installer/cli.py\<close>\<close>

text \<open>
  The installer is a straight line of shell commands with branches on the platform name.
  Everything it reads from or does to the host goes through the Python library
  (\<^verbatim>\<open>platform\<close>, \<^verbatim>\<open>shutil\<close>, \<^verbatim>\<open>subprocess\<close>, \<^verbatim>\<open>tempfile\<close>, \<^verbatim>\<open>os\<close>); the model takes
  those calls as the fields of an environment over an abstract host state \<open>'w\<close>, and
  threads the host state and a trace of what the program did through every function.
  Text is a \<open>string\<close> whose characters are code points below 256.
\<close>

subsection \<open>Python strings\<close>

text \<open>\<^verbatim>\<open>sub in s\<close>: \<open>sub\<close> occurs in \<open>s\<close> as a contiguous run.\<close>

fun py_in :: "string \<Rightarrow> string \<Rightarrow> bool" where
  "py_in sub [] = (sub = [])"
| "py_in sub (c # cs) = (take (length sub) (c # cs) = sub \<or> py_in sub cs)"

text \<open>\<^verbatim>\<open>sep.join(xs)\<close>.\<close>

fun py_join :: "string \<Rightarrow> string list \<Rightarrow> string" where
  "py_join sep [] = []"
| "py_join sep [x] = x"
| "py_join sep (x # y # ys) = x @ sep @ py_join sep (y # ys)"

text \<open>
  \<^verbatim>\<open>str.isspace\<close> on one character below 256: TAB, LF, VT, FF, CR, the separators
  FS, GS, RS, US, the space, NEL and the no-break space.
\<close>

definition py_isspace :: "char \<Rightarrow> bool" where
  "py_isspace c =
     (let n = (of_char c :: nat)
      in (9 \<le> n \<and> n \<le> 13) \<or> (28 \<le> n \<and> n \<le> 32) \<or> n = 133 \<or> n = 160)"

text \<open>\<^verbatim>\<open>s.strip()\<close>: white space removed at both ends.\<close>

definition py_strip :: "string \<Rightarrow> string" where
  "py_strip s = rev (dropWhile py_isspace (rev (dropWhile py_isspace s)))"

text \<open>
  \<^verbatim>\<open>s.lower()\<close> below 256: the letters A to Z, and the Latin-1 capitals
  (192 to 222 but the multiplication sign 215), move up by 32.
\<close>

definition lower_char :: "char \<Rightarrow> char" where
  "lower_char c =
     (let n = (of_char c :: nat)
      in if (65 \<le> n \<and> n \<le> 90) \<or> (192 \<le> n \<and> n \<le> 222 \<and> n \<noteq> 215)
         then char_of (n + 32) else c)"

definition py_lower :: "string \<Rightarrow> string" where
  "py_lower s = map lower_char s"

text \<open>\<^verbatim>\<open>str(n)\<close> for a natural number, as the f-string of the compile step renders it.\<close>

fun py_str_nat :: "nat \<Rightarrow> string" where
  "py_str_nat n =
     (if n < 10 then [char_of (48 + n)]
      else py_str_nat (n div 10) @ [char_of (48 + n mod 10)])"

declare py_str_nat.simps [simp del]

subsection \<open>The host, the state and the trace\<close>

text \<open>What a finished child process leaves: \<^verbatim>\<open>subprocess.CompletedProcess\<close>.\<close>

record proc =
  returncode :: int
  stdout :: string
  stderr :: string

text \<open>The two functions of the installer whose invocation the orchestrator decides.\<close>

datatype fn = Install_dependencies | Build_notcurses

text \<open>
  The trace: \<open>Exec cmd cwd p\<close> is a shell command run in directory \<open>cwd\<close> that finished as
  \<open>p\<close>; \<open>Print\<close> is a \<^verbatim>\<open>console.print\<close>; \<open>Call\<close> marks the entry of a function;
  the other three are the directory operations of the source builder.
\<close>

datatype event =
    Exec string "string option" proc
  | Print string
  | Call fn
  | Mkdtemp string
  | Makedirs string
  | Rmtree string

text \<open>
  The library calls the installer makes. \<open>spawn\<close> is \<^verbatim>\<open>subprocess.run(cmd, shell=True,
  cwd=..., capture_output=True, text=True)\<close> up to the check of the return code; the shell
  itself is assumed to start. \<open>platform_system\<close> is \<^verbatim>\<open>platform.system()\<close>, \<open>which\<close> is
  \<^verbatim>\<open>shutil.which\<close>, \<open>cpu_count\<close> is \<^verbatim>\<open>os.cpu_count()\<close>, \<open>path_join\<close> is
  \<^verbatim>\<open>os.path.join\<close>; \<open>mkdtemp\<close>, \<open>makedirs\<close> and \<open>rmtree\<close> create the temporary directory,
  create the build directory (\<^verbatim>\<open>exist_ok=True\<close>) and remove the temporary directory, and
  are assumed to succeed.
\<close>

record 'w env =
  platform_system :: string
  which :: "'w \<Rightarrow> string \<Rightarrow> string option"
  spawn :: "'w \<Rightarrow> string \<Rightarrow> string option \<Rightarrow> proc \<times> 'w"
  cpu_count :: "nat option"
  path_join :: "string \<Rightarrow> string \<Rightarrow> string"
  mkdtemp :: "'w \<Rightarrow> string \<times> 'w"
  makedirs :: "'w \<Rightarrow> string \<Rightarrow> 'w"
  rmtree :: "'w \<Rightarrow> string \<Rightarrow> 'w"

record 'w state =
  world :: 'w
  trace :: "event list"

definition emit :: "event \<Rightarrow> 'w state \<Rightarrow> 'w state" where
  "emit e s = s\<lparr>trace := trace s @ [e]\<rparr>"

definition console_print :: "string \<Rightarrow> 'w state \<Rightarrow> 'w state" where
  "console_print text s = emit (Print text) s"

subsection \<open>Command runner\<close>

text \<open>
  \<^verbatim>\<open>subprocess.run(..., check=check)\<close>: with \<open>check\<close> a non-zero return code raises
  \<^verbatim>\<open>CalledProcessError\<close>, which carries the same three fields (\<open>Inl\<close>).
\<close>

definition subprocess_run ::
  "'w env \<Rightarrow> string \<Rightarrow> string option \<Rightarrow> bool \<Rightarrow> 'w state \<Rightarrow> (proc + proc) \<times> 'w state" where
  "subprocess_run env cmd cwd check s =
     (let (p, w) = spawn env (world s) cmd cwd;
          s' = emit (Exec cmd cwd p) (s\<lparr>world := w\<rparr>)
      in (if check \<and> returncode p \<noteq> 0 then Inl p else Inr p, s'))"

definition run_command ::
  "'w env \<Rightarrow> string \<Rightarrow> string option \<Rightarrow> bool \<Rightarrow> 'w state
     \<Rightarrow> (bool \<times> string \<times> string) \<times> 'w state" where
  "run_command env cmd cwd check s =
     (case subprocess_run env cmd cwd check s of
        (Inr result, s') \<Rightarrow> ((returncode result = 0, stdout result, stderr result), s')
      | (Inl e, s') \<Rightarrow> ((False, stdout e, stderr e), s'))"

definition check_command_exists :: "'w env \<Rightarrow> 'w \<Rightarrow> string \<Rightarrow> bool" where
  "check_command_exists env w cmd = (which env w cmd \<noteq> None)"

subsection \<open>Platform detector\<close>

definition detect_platform :: "'w env \<Rightarrow> 'w \<Rightarrow> string \<times> string" where
  "detect_platform env w =
     (let system = py_lower (platform_system env)
      in if system = ''linux'' then
           (if check_command_exists env w ''apt-get'' then (''ubuntu'', ''apt'')
            else if check_command_exists env w ''dnf'' then (''fedora'', ''dnf'')
            else if check_command_exists env w ''pacman'' then (''arch'', ''pacman'')
            else (''linux'', ''unknown''))
         else if system = ''darwin'' then (''macos'', ''brew'')
         else if system = ''windows'' then
           (if check_command_exists env w ''pacman'' then (''windows'', ''msys2'')
            else if check_command_exists env w ''vcpkg'' then (''windows'', ''vcpkg'')
            else (''windows'', ''unknown''))
         else (''unknown'', ''unknown''))"

subsection \<open>Dependency installer\<close>

text \<open>The two dictionaries of \<^verbatim>\<open>install_dependencies\<close>, in the order of the source.\<close>

definition deps :: "(string \<times> string list) list" where
  "deps =
     [(''ubuntu'',
        [''build-essential'', ''cmake'', ''pkg-config'',
         ''libncurses-dev'', ''libunistring-dev'',
         ''libavformat-dev'', ''libavutil-dev'',
         ''libswscale-dev'', ''libqrcodegen-dev'', ''git'']),
      (''fedora'',
        [''gcc-c++'', ''cmake'', ''pkgconfig'',
         ''ncurses-devel'', ''libunistring-devel'',
         ''ffmpeg-devel'', ''qrencode-devel'', ''git'']),
      (''arch'', [''notcurses'']),
      (''macos'', [''notcurses'']),
      (''msys2'',
        [''mingw-w64-x86_64-gcc'', ''mingw-w64-x86_64-cmake'',
         ''mingw-w64-x86_64-pkg-config'', ''mingw-w64-x86_64-ncurses'',
         ''mingw-w64-x86_64-ffmpeg'', ''git''])]"

definition commands :: "string \<Rightarrow> (string \<times> string) list" where
  "commands platform_name =
     [(''apt'', ''sudo apt-get update && sudo apt-get install -y''),
      (''dnf'', ''sudo dnf install -y''),
      (''pacman'',
         if platform_name = ''msys2'' then ''sudo pacman -S --needed --noconfirm''
         else ''yay -S''),
      (''brew'', ''brew install'')]"

definition install_dependencies ::
  "'w env \<Rightarrow> string \<Rightarrow> string \<Rightarrow> 'w state \<Rightarrow> (bool \<times> string) \<times> 'w state" where
  "install_dependencies env platform_name package_manager s0 =
     (let s = emit (Call Install_dependencies) s0
      in case map_of deps platform_name of
           None \<Rightarrow> ((False, ''Unsupported platform: '' @ platform_name), s)
         | Some pkgs \<Rightarrow>
             (case map_of (commands platform_name) package_manager of
                None \<Rightarrow> ((False, ''Unsupported package manager: '' @ package_manager), s)
              | Some template \<Rightarrow>
                  (let packages = py_join '' '' pkgs;
                       cmd = template @ '' '' @ packages;
                       s1 = console_print
                              (''[blue]Installing dependencies: '' @ packages @ ''[/blue]'') s;
                       ((success, out, err), s2) = run_command env cmd None True s1
                   in if \<not> success
                      then ((False, ''Failed to install dependencies: '' @ err), s2)
                      else ((True, ''Dependencies installed successfully''), s2))))"

subsection \<open>Source builder\<close>

text \<open>
  The body of the \<^verbatim>\<open>with tempfile.TemporaryDirectory() as temp_dir\<close> block. Every
  \<^verbatim>\<open>return\<close> of the source is a branch that ends the function here.
\<close>

definition build_body :: "'w env \<Rightarrow> string \<Rightarrow> 'w state \<Rightarrow> (bool \<times> string) \<times> 'w state" where
  "build_body env temp_dir s0 =
     (let s1 = console_print ''[blue]Downloading notcurses source...[/blue]'' s0;
          ((success, out, err), s2) =
             run_command env ''git clone https://github.com/dankamongmen/notcurses.git''
               (Some temp_dir) True s1
      in if \<not> success then ((False, ''Failed to clone notcurses: '' @ err), s2)
         else
          (let notcurses_dir = path_join env temp_dir ''notcurses'';
               ((success, out, err), s3) =
                  run_command env ''git checkout v3.0.11'' (Some notcurses_dir) True s2
           in if \<not> success then ((False, ''Failed to checkout v3.0.11: '' @ err), s3)
              else
               (let build_dir = path_join env notcurses_dir ''build'';
                    s4 = emit (Makedirs build_dir) (s3\<lparr>world := makedirs env (world s3) build_dir\<rparr>);
                    s5 = console_print ''[blue]Configuring build...[/blue]'' s4;
                    ((success, out, err), s6) =
                       run_command env ''cmake .. -DCMAKE_BUILD_TYPE=Release''
                         (Some build_dir) True s5
                in if \<not> success then ((False, ''Failed to configure build: '' @ err), s6)
                   else
                    (let s7 = console_print
                                ''[blue]Building notcurses (this may take a few minutes)...[/blue]'' s6;
                         cpus = (case cpu_count env of
                                   None \<Rightarrow> 4
                                 | Some n \<Rightarrow> if n = 0 then 4 else n);
                         ((success, out, err), s8) =
                            run_command env (''make -j'' @ py_str_nat cpus) (Some build_dir) True s7
                     in if \<not> success then ((False, ''Failed to build notcurses: '' @ err), s8)
                        else
                         (let s9 = console_print ''[blue]Installing notcurses...[/blue]'' s8;
                              ((success, out, err), s10) =
                                 run_command env ''sudo make install'' (Some build_dir) True s9
                          in if \<not> success
                             then ((False, ''Failed to install notcurses: '' @ err), s10)
                             else
                              (let s11 = (if py_lower (platform_system env) = ''linux''
                                          then snd (run_command env ''sudo ldconfig'' None True s10)
                                          else s10)
                               in ((True, ''notcurses 3.0.11 installed successfully''), s11)))))))"

text \<open>
  \<^verbatim>\<open>build_notcurses\<close>: the temporary directory is created on entry and removed on every
  way out of the block.
\<close>

definition build_notcurses :: "'w env \<Rightarrow> 'w state \<Rightarrow> (bool \<times> string) \<times> 'w state" where
  "build_notcurses env s0 =
     (let s = emit (Call Build_notcurses) s0;
          (temp_dir, w) = mkdtemp env (world s);
          s1 = emit (Mkdtemp temp_dir) (s\<lparr>world := w\<rparr>);
          (result, s2) = build_body env temp_dir s1;
          s3 = emit (Rmtree temp_dir) (s2\<lparr>world := rmtree env (world s2) temp_dir\<rparr>)
      in (result, s3))"

subsection \<open>Orchestrator\<close>

record flags =
  skip_deps :: bool
  skip_build :: bool
  test :: bool

text \<open>
  How \<^verbatim>\<open>main\<close> ends: it returns (the \<^verbatim>\<open>click\<close> command then exits with code 0) or it
  calls \<^verbatim>\<open>sys.exit\<close>.
\<close>

datatype outcome = Returned | SysExit int

fun exit_code :: "outcome \<Rightarrow> int" where
  "exit_code Returned = 0"
| "exit_code (SysExit n) = n"

definition pkg_config_query :: string where
  "pkg_config_query = ''pkg-config --modversion notcurses''"

definition banner :: string where
  "banner = ''[bold blue]TUI Framework Installer[/bold blue]'' @ [CHR 0x0A] @
            ''Installing notcurses 3.0.11 and dependencies...''"

definition complete_text :: string where
  "complete_text =
     ''[bold green]Installation Complete![/bold green]'' @ [CHR 0x0A, CHR 0x0A] @
     ''Next steps:'' @ [CHR 0x0A] @
     ''1. Clone the TUI Framework:'' @ [CHR 0x0A] @
     ''   [cyan]git clone https://github.com/entrepeneur4lyf/tui-framework.git[/cyan]'' @ [CHR 0x0A] @
     ''2. Test the framework:'' @ [CHR 0x0A] @
     ''   [cyan]cd tui-framework && cargo run --example backend_test --features notcurses[/cyan]''"

text \<open>
  The three stages after the check for an installed library. Each returns \<open>None\<close> when
  \<^verbatim>\<open>main\<close> goes on to the next statement and \<open>Some\<close> of the way \<^verbatim>\<open>main\<close> ends otherwise.
  The progress spinner around the first two prints nothing the trace keeps and decides
  no branch.
\<close>

definition deps_stage ::
  "'w env \<Rightarrow> flags \<Rightarrow> string \<Rightarrow> string \<Rightarrow> 'w state \<Rightarrow> outcome option \<times> 'w state" where
  "deps_stage env f platform_name package_manager s =
     (if \<not> skip_deps f then
        (let ((success, message), s1) = install_dependencies env platform_name package_manager s
         in if success
            then (None, console_print (''[green]SUCCESS: '' @ message @ ''[/green]'') s1)
            else (Some (SysExit 1), console_print (''[red]ERROR: '' @ message @ ''[/red]'') s1))
      else (None, s))"

definition build_stage ::
  "'w env \<Rightarrow> flags \<Rightarrow> string \<Rightarrow> 'w state \<Rightarrow> outcome option \<times> 'w state" where
  "build_stage env f platform_name s =
     (if \<not> skip_build f \<and> platform_name \<notin> set [''arch'', ''macos''] then
        (let ((success, message), s1) = build_notcurses env s
         in if success
            then (None, console_print (''[green]SUCCESS: '' @ message @ ''[/green]'') s1)
            else (Some (SysExit 1), console_print (''[red]ERROR: '' @ message @ ''[/red]'') s1))
      else (None, s))"

definition test_stage :: "'w env \<Rightarrow> flags \<Rightarrow> 'w state \<Rightarrow> outcome option \<times> 'w state" where
  "test_stage env f s =
     (if test f then
        (let s1 = console_print ''[blue]Testing installation...[/blue]'' s;
             ((success, out, err), s2) = run_command env pkg_config_query None False s1
         in if success
            then (let version = py_strip out
                  in (None, console_print
                              (''[green]SUCCESS: notcurses '' @ version @ '' detected[/green]'') s2))
            else (Some (SysExit 1),
                  console_print ''[red]ERROR: Installation verification failed[/red]'' s2))
      else (None, s))"

text \<open>
  The statements of \<^verbatim>\<open>main\<close> after the check for an installed library: the three
  stages in order, up to the first that exits, and the closing panel.
\<close>

definition stages ::
  "'w env \<Rightarrow> flags \<Rightarrow> string \<Rightarrow> string \<Rightarrow> 'w state \<Rightarrow> outcome \<times> 'w state" where
  "stages env f platform_name package_manager s4 =
     (case deps_stage env f platform_name package_manager s4 of
        (Some r, s5) \<Rightarrow> (r, s5)
      | (None, s5) \<Rightarrow>
          (case build_stage env f platform_name s5 of
             (Some r, s6) \<Rightarrow> (r, s6)
           | (None, s6) \<Rightarrow>
               (case test_stage env f s6 of
                  (Some r, s7) \<Rightarrow> (r, s7)
                | (None, s7) \<Rightarrow> (Returned, console_print complete_text s7))))"

definition main :: "'w env \<Rightarrow> flags \<Rightarrow> 'w state \<Rightarrow> outcome \<times> 'w state" where
  "main env f s0 =
     (let s1 = console_print banner s0;
          (platform_name, package_manager) = detect_platform env (world s1);
          s2 = console_print
                 (''[green]Detected platform: '' @ platform_name @ '' ('' @ package_manager @
                  '')[/green]'') s1
      in if platform_name = ''unknown'' then
           (SysExit 1,
            console_print ''  - Windows (with MSYS2)''
              (console_print ''  - macOS (with Homebrew)''
                (console_print ''  - Linux (Ubuntu, Fedora, Arch)''
                  (console_print ''Supported platforms:''
                    (console_print ''[red]ERROR: Unsupported platform detected[/red]'' s2)))))
         else
          (let ((success, out, err), s3) = run_command env pkg_config_query None False s2;
               installed = (success \<and> py_in ''3.0.11'' out);
               s4 = (if installed
                     then console_print ''[green]SUCCESS: notcurses 3.0.11 already installed[/green]'' s3
                     else s3)
           in if installed \<and> \<not> test f then (Returned, s4)
              else stages env f platform_name package_manager s4))"

subsection \<open>Reading a trace\<close>

text \<open>The state a run of the program starts from: host state \<open>w\<close>, nothing done yet.\<close>

definition start :: "'w \<Rightarrow> 'w state" where
  "start w = \<lparr>world = w, trace = []\<rparr>"

text \<open>What a function added to the trace, between the state it got and the one it left.\<close>

definition events_since :: "'w state \<Rightarrow> 'w state \<Rightarrow> event list" where
  "events_since s s' = drop (length (trace s)) (trace s')"

text \<open>The shell commands of a trace, their outcomes, and the functions entered, in order.\<close>

fun shell_commands :: "event list \<Rightarrow> string list" where
  "shell_commands [] = []"
| "shell_commands (Exec cmd cwd p # es) = cmd # shell_commands es"
| "shell_commands (e # es) = shell_commands es"

fun shell_results :: "event list \<Rightarrow> proc list" where
  "shell_results [] = []"
| "shell_results (Exec cmd cwd p # es) = p # shell_results es"
| "shell_results (e # es) = shell_results es"

fun calls :: "event list \<Rightarrow> fn list" where
  "calls [] = []"
| "calls (Call g # es) = g # calls es"
| "calls (e # es) = calls es"

subsection \<open>Hosts to run the program on\<close>

text \<open>
  A host whose state is the list of the commands run so far: \<open>sys\<close> is what
  \<^verbatim>\<open>platform.system()\<close> says, \<open>path\<close> the executables the search path resolves, and
  \<open>respond\<close> what a command leaves, given the commands before it.
\<close>

definition host ::
  "string \<Rightarrow> string list \<Rightarrow> (string list \<Rightarrow> string \<Rightarrow> proc) \<Rightarrow> string list env" where
  "host sys path respond =
     \<lparr>platform_system = sys,
      which = (\<lambda>w c. if c \<in> set path then Some (''/usr/bin/'' @ c) else None),
      spawn = (\<lambda>w cmd cwd. (respond w cmd, w @ [cmd])),
      cpu_count = Some 4,
      path_join = (\<lambda>a b. a @ ''/'' @ b),
      mkdtemp = (\<lambda>w. (''/tmp/tmpk3x9'', w)),
      makedirs = (\<lambda>w d. w),
      rmtree = (\<lambda>w d. w)\<rparr>"

definition done_ok :: "string \<Rightarrow> proc" where
  "done_ok text = \<lparr>returncode = 0, stdout = text, stderr = []\<rparr>"

definition done_failed :: "string \<Rightarrow> proc" where
  "done_failed text = \<lparr>returncode = 1, stdout = [], stderr = text\<rparr>"

text \<open>Every command succeeds and prints nothing, but the version query, which prints \<open>v\<close>.\<close>

definition reports :: "string \<Rightarrow> string list \<Rightarrow> string \<Rightarrow> proc" where
  "reports v w cmd = (if cmd = pkg_config_query then done_ok v else done_ok [])"

text \<open>Every command succeeds but \<open>bad\<close>, which fails with the text \<open>msg\<close> on its standard error.\<close>

definition fails_at :: "string \<Rightarrow> string \<Rightarrow> string list \<Rightarrow> string \<Rightarrow> proc" where
  "fails_at bad msg w cmd = (if cmd = bad then done_failed msg else done_ok [])"

subsection \<open>The gated steps of the source builder\<close>

text \<open>
  The compile command, with the parallelism \<^verbatim>\<open>os.cpu_count() or 4\<close>, and the five
  commands of the source builder whose failure ends the build, each with the text its
  failure message starts with.
\<close>

definition make_command :: "'w env \<Rightarrow> string" where
  "make_command env =
     ''make -j'' @ py_str_nat (case cpu_count env of
                                 None \<Rightarrow> 4
                               | Some n \<Rightarrow> if n = 0 then 4 else n)"

definition gated_steps :: "'w env \<Rightarrow> (string \<times> string) list" where
  "gated_steps env =
     [(''git clone https://github.com/dankamongmen/notcurses.git'', ''Failed to clone notcurses: ''),
      (''git checkout v3.0.11'', ''Failed to checkout v3.0.11: ''),
      (''cmake .. -DCMAKE_BUILD_TYPE=Release'', ''Failed to configure build: ''),
      (make_command env, ''Failed to build notcurses: ''),
      (''sudo make install'', ''Failed to install notcurses: '')]"

section \<open>Properties\<close>

subsection \<open>Traces and the command runner\<close>

lemma trace_emit: "trace (emit e s) = trace s @ [e]"
  by (simp add: emit_def)

lemma world_emit: "world (emit e s) = world s"
  by (simp add: emit_def)

lemma trace_console_print: "trace (console_print t s) = trace s @ [Print t]"
  by (simp add: console_print_def emit_def)

lemma world_console_print: "world (console_print t s) = world s"
  by (simp add: console_print_def emit_def)

text \<open>
  The runner never raises: with or without \<open>check\<close> it hands back whether the return code
  is 0 and the two captured texts, and leaves one \<open>Exec\<close> in the trace.
\<close>

lemma run_command_eq:
  "run_command env cmd cwd check s =
     ((returncode (fst (spawn env (world s) cmd cwd)) = 0,
       stdout (fst (spawn env (world s) cmd cwd)),
       stderr (fst (spawn env (world s) cmd cwd))),
      \<lparr>world = snd (spawn env (world s) cmd cwd),
       trace = trace s @ [Exec cmd cwd (fst (spawn env (world s) cmd cwd))]\<rparr>)"
  by (simp add: run_command_def subprocess_run_def emit_def Let_def split: prod.splits)

lemma events_since_append: "trace s' = trace s @ evs \<Longrightarrow> events_since s s' = evs"
  by (simp add: events_since_def)

lemma shell_commands_append: "shell_commands (xs @ ys) = shell_commands xs @ shell_commands ys"
  by (induction xs rule: shell_commands.induct) simp_all

lemma shell_results_append: "shell_results (xs @ ys) = shell_results xs @ shell_results ys"
  by (induction xs rule: shell_results.induct) simp_all

lemma calls_append: "calls (xs @ ys) = calls xs @ calls ys"
  by (induction xs rule: calls.induct) simp_all

subsection \<open>Strings\<close>

lemma py_in_iff: "py_in sub s \<longleftrightarrow> (\<exists>pre post. s = pre @ sub @ post)"
proof (induction s)
  case Nil
  then show ?case by auto
next
  case (Cons c cs)
  show ?case
  proof
    assume "py_in sub (c # cs)"
    then consider "take (length sub) (c # cs) = sub" | "py_in sub cs" by auto
    then show "\<exists>pre post. c # cs = pre @ sub @ post"
    proof cases
      case 1
      then have "c # cs = [] @ sub @ drop (length sub) (c # cs)"
        by (metis append_Nil append_take_drop_id)
      then show ?thesis by blast
    next
      case 2
      then obtain pre post where "cs = pre @ sub @ post" using Cons.IH by blast
      then have "c # cs = (c # pre) @ sub @ post" by simp
      then show ?thesis by blast
    qed
  next
    assume "\<exists>pre post. c # cs = pre @ sub @ post"
    then obtain pre post where eq: "c # cs = pre @ sub @ post" by blast
    show "py_in sub (c # cs)"
    proof (cases pre)
      case Nil
      with eq have "take (length sub) (c # cs) = sub" by simp
      then show ?thesis by simp
    next
      case (Cons a pre')
      with eq have "cs = pre' @ sub @ post" by simp
      then have "py_in sub cs" using Cons.IH by blast
      then show ?thesis by simp
    qed
  qed
qed

lemma py_in_suffix: "py_in sub (pre @ sub)"
  using py_in_iff [of sub "pre @ sub"] by (metis append_Nil2)

lemma lower_Linux: "py_lower ''Linux'' = ''linux''"
  by code_simp

lemma lower_Darwin: "py_lower ''Darwin'' = ''darwin''"
  by code_simp

lemma lower_Windows: "py_lower ''Windows'' = ''windows''"
  by code_simp

lemma lower_Java: "py_lower ''Java'' = ''java''"
  by code_simp

subsection \<open>Platform detector\<close>

text \<open>
  C3. The detector follows the priority rules. On \<open>linux\<close> it probes \<open>apt-get\<close>, then
  \<open>dnf\<close>, then \<open>pacman\<close>, and the first one found decides: \<open>pacman\<close> alone gives
  (arch, pacman), none gives (linux, unknown). On \<open>darwin\<close> the answer is (macos, brew)
  whatever the probe would say. On \<open>windows\<close> it probes \<open>pacman\<close>, then \<open>vcpkg\<close>:
  (windows, msys2), (windows, vcpkg), or (windows, unknown) when neither is found. An
  identifier that is none of \<open>linux\<close>, \<open>darwin\<close>, \<open>windows\<close> gives (unknown, unknown).
  The cases cover every identifier and every outcome of the probes, so the pair is fixed.
\<close>

theorem detect_platform_priority:
  "(py_lower (platform_system env) = ''linux'' \<and> which env w ''apt-get'' \<noteq> None \<longrightarrow>
      detect_platform env w = (''ubuntu'', ''apt''))
   \<and> (py_lower (platform_system env) = ''linux'' \<and> which env w ''apt-get'' = None
        \<and> which env w ''dnf'' \<noteq> None \<longrightarrow>
      detect_platform env w = (''fedora'', ''dnf''))
   \<and> (py_lower (platform_system env) = ''linux'' \<and> which env w ''apt-get'' = None
        \<and> which env w ''dnf'' = None \<and> which env w ''pacman'' \<noteq> None \<longrightarrow>
      detect_platform env w = (''arch'', ''pacman''))
   \<and> (py_lower (platform_system env) = ''linux'' \<and> which env w ''apt-get'' = None
        \<and> which env w ''dnf'' = None \<and> which env w ''pacman'' = None \<longrightarrow>
      detect_platform env w = (''linux'', ''unknown''))
   \<and> (py_lower (platform_system env) = ''darwin'' \<longrightarrow>
      detect_platform (env\<lparr>which := probe\<rparr>) w = (''macos'', ''brew''))
   \<and> (py_lower (platform_system env) = ''windows'' \<and> which env w ''pacman'' \<noteq> None \<longrightarrow>
      detect_platform env w = (''windows'', ''msys2''))
   \<and> (py_lower (platform_system env) = ''windows'' \<and> which env w ''pacman'' = None
        \<and> which env w ''vcpkg'' \<noteq> None \<longrightarrow>
      detect_platform env w = (''windows'', ''vcpkg''))
   \<and> (py_lower (platform_system env) = ''windows'' \<and> which env w ''pacman'' = None
        \<and> which env w ''vcpkg'' = None \<longrightarrow>
      detect_platform env w = (''windows'', ''unknown''))
   \<and> (py_lower (platform_system env) \<notin> {''linux'', ''darwin'', ''windows''} \<longrightarrow>
      detect_platform env w = (''unknown'', ''unknown''))"
  by (simp add: detect_platform_def check_command_exists_def Let_def)

theorem detect_platform_priority_witness:
  "detect_platform (host ''Linux'' [''apt-get'', ''dnf'', ''pacman''] (reports [])) []
     = (''ubuntu'', ''apt'')
   \<and> detect_platform (host ''Linux'' [''dnf'', ''pacman''] (reports [])) [] = (''fedora'', ''dnf'')
   \<and> detect_platform (host ''Linux'' [''pacman''] (reports [])) [] = (''arch'', ''pacman'')
   \<and> detect_platform (host ''Linux'' [] (reports [])) [] = (''linux'', ''unknown'')
   \<and> detect_platform ((host ''Darwin'' [] (reports []))\<lparr>which := (\<lambda>w c. None)\<rparr>) []
       = (''macos'', ''brew'')
   \<and> detect_platform (host ''Windows'' [''pacman'', ''vcpkg''] (reports [])) []
       = (''windows'', ''msys2'')
   \<and> detect_platform (host ''Windows'' [''vcpkg''] (reports [])) [] = (''windows'', ''vcpkg'')
   \<and> detect_platform (host ''Windows'' [''apt-get''] (reports [])) [] = (''windows'', ''unknown'')
   \<and> detect_platform (host ''Java'' [''apt-get''] (reports [])) [] = (''unknown'', ''unknown'')"
  using
    detect_platform_priority [of "host ''Linux'' [''apt-get'', ''dnf'', ''pacman''] (reports [])" "[]"]
    detect_platform_priority [of "host ''Linux'' [''dnf'', ''pacman''] (reports [])" "[]"]
    detect_platform_priority [of "host ''Linux'' [''pacman''] (reports [])" "[]"]
    detect_platform_priority [of "host ''Linux'' [] (reports [])" "[]"]
    detect_platform_priority [of "host ''Darwin'' [] (reports [])" "[]" "\<lambda>w c. None"]
    detect_platform_priority [of "host ''Windows'' [''pacman'', ''vcpkg''] (reports [])" "[]"]
    detect_platform_priority [of "host ''Windows'' [''vcpkg''] (reports [])" "[]"]
    detect_platform_priority [of "host ''Windows'' [''apt-get''] (reports [])" "[]"]
    detect_platform_priority [of "host ''Java'' [''apt-get''] (reports [])" "[]"]
  by (simp add: host_def lower_Linux lower_Darwin lower_Windows lower_Java)

text \<open>
  C2. On the OS identifier \<open>windows\<close> the detector names the platform \<open>windows\<close>, and
  the dependency installer given the detector's pair answers failure with
  ``Unsupported platform: windows'' and runs nothing: \<open>windows\<close> is no key of the
  dependency table, \<open>msys2\<close> is, and the detector never names a platform \<open>msys2\<close>.
\<close>

theorem windows_platform_unsupported:
  "(py_lower (platform_system env) = ''windows'' \<longrightarrow>
      fst (detect_platform env w) = ''windows'' \<and>
      install_dependencies env (fst (detect_platform env w)) (snd (detect_platform env w)) s =
        ((False, ''Unsupported platform: windows''), emit (Call Install_dependencies) s))
   \<and> fst (detect_platform env w) \<noteq> ''msys2''
   \<and> ''windows'' \<notin> fst ` set deps
   \<and> ''msys2'' \<in> fst ` set deps"
proof (intro conjI impI)
  assume win: "py_lower (platform_system env) = ''windows''"
  then show name: "fst (detect_platform env w) = ''windows''"
    by (simp add: detect_platform_def Let_def)
  have "map_of deps ''windows'' = None"
    by (simp add: deps_def)
  with name show
    "install_dependencies env (fst (detect_platform env w)) (snd (detect_platform env w)) s =
       ((False, ''Unsupported platform: windows''), emit (Call Install_dependencies) s)"
    by (simp add: install_dependencies_def)
next
  show "fst (detect_platform env w) \<noteq> ''msys2''"
    by (simp add: detect_platform_def Let_def)
next
  show "''windows'' \<notin> fst ` set deps" by (simp add: deps_def)
next
  show "''msys2'' \<in> fst ` set deps" by (simp add: deps_def)
qed

theorem windows_platform_unsupported_witness:
  "py_lower (platform_system (host ''Windows'' [''pacman''] (reports []))) = ''windows''
   \<and> detect_platform (host ''Windows'' [''pacman''] (reports [])) [] = (''windows'', ''msys2'')
   \<and> install_dependencies (host ''Windows'' [''pacman''] (reports [])) ''windows'' ''msys2''
        (start [])
        = ((False, ''Unsupported platform: windows''),
           \<lparr>world = [], trace = [Call Install_dependencies]\<rparr>)"
proof -
  let ?h = "host ''Windows'' [''pacman''] (reports [])"
  have os: "py_lower (platform_system ?h) = ''windows''"
    by (simp add: host_def lower_Windows)
  have dp: "detect_platform ?h [] = (''windows'', ''msys2'')"
    by (simp add: detect_platform_def check_command_exists_def host_def lower_Windows Let_def)
  from windows_platform_unsupported [of ?h "[]" "start []"] os dp
  show ?thesis by (simp add: start_def emit_def)
qed

subsection \<open>Dependency installer\<close>

text \<open>
  C6. The command the dependency installer hands to the runner is exactly
  \<^verbatim>\<open>yay -S notcurses\<close> for platform \<open>arch\<close> with manager \<open>pacman\<close>, and for platform
  \<open>msys2\<close> with manager \<open>pacman\<close> it is \<^verbatim>\<open>sudo pacman -S --needed --noconfirm\<close>, a space,
  and the packages of the \<open>msys2\<close> entry joined by spaces. Each is the only command run.
\<close>

theorem install_dependencies_command:
  "shell_commands (events_since s (snd (install_dependencies env ''arch'' ''pacman'' s)))
     = [''yay -S notcurses'']
   \<and> shell_commands (events_since s (snd (install_dependencies env ''msys2'' ''pacman'' s)))
     = [''sudo pacman -S --needed --noconfirm mingw-w64-x86_64-gcc mingw-w64-x86_64-cmake mingw-w64-x86_64-pkg-config mingw-w64-x86_64-ncurses mingw-w64-x86_64-ffmpeg git'']
   \<and> map_of deps ''msys2''
     = Some [''mingw-w64-x86_64-gcc'', ''mingw-w64-x86_64-cmake'',
             ''mingw-w64-x86_64-pkg-config'', ''mingw-w64-x86_64-ncurses'',
             ''mingw-w64-x86_64-ffmpeg'', ''git'']"
  by (simp add: install_dependencies_def deps_def commands_def run_command_eq
      console_print_def emit_def events_since_def Let_def)

theorem install_dependencies_command_witness:
  "install_dependencies (host ''Linux'' [''pacman''] (reports [])) ''arch'' ''pacman'' (start [])
     = ((True, ''Dependencies installed successfully''),
        \<lparr>world = [''yay -S notcurses''],
         trace = [Call Install_dependencies,
                  Print ''[blue]Installing dependencies: notcurses[/blue]'',
                  Exec ''yay -S notcurses'' None (done_ok [])]\<rparr>)"
proof -
  let ?h = "host ''Linux'' [''pacman''] (reports [])"
  have run: "install_dependencies ?h ''arch'' ''pacman'' (start [])
     = ((True, ''Dependencies installed successfully''),
        \<lparr>world = [''yay -S notcurses''],
         trace = [Call Install_dependencies,
                  Print ''[blue]Installing dependencies: notcurses[/blue]'',
                  Exec ''yay -S notcurses'' None (done_ok [])]\<rparr>)"
    by (simp add: install_dependencies_def deps_def commands_def run_command_eq
        console_print_def emit_def start_def host_def reports_def pkg_config_query_def
        done_ok_def Let_def)
  from install_dependencies_command [of "start []" ?h] run show ?thesis by simp
qed

text \<open>
  C7. A platform name that is no key of the dependency table gives failure with the
  message ``Unsupported platform: '' and the name; a platform name of the table with a
  package manager that is no key of the command table gives failure with
  ``Unsupported package manager: '' and the manager. In both cases the installer leaves
  the host as it was and runs no command.
\<close>

theorem install_dependencies_unsupported:
  "(platform_name \<notin> fst ` set deps \<longrightarrow>
      install_dependencies env platform_name package_manager s =
        ((False, ''Unsupported platform: '' @ platform_name), emit (Call Install_dependencies) s))
   \<and> (platform_name \<in> fst ` set deps
        \<and> package_manager \<notin> fst ` set (commands platform_name) \<longrightarrow>
      install_dependencies env platform_name package_manager s =
        ((False, ''Unsupported package manager: '' @ package_manager),
         emit (Call Install_dependencies) s))
   \<and> py_in ''Unsupported platform'' (''Unsupported platform: '' @ platform_name)
   \<and> py_in ''Unsupported package manager'' (''Unsupported package manager: '' @ package_manager)
   \<and> shell_commands (events_since s (emit (Call Install_dependencies) s)) = []
   \<and> world (emit (Call Install_dependencies) s) = world s"
proof (intro conjI impI)
  assume "platform_name \<notin> fst ` set deps"
  then have "map_of deps platform_name = None" by (simp add: map_of_eq_None_iff)
  then show "install_dependencies env platform_name package_manager s =
        ((False, ''Unsupported platform: '' @ platform_name), emit (Call Install_dependencies) s)"
    by (simp add: install_dependencies_def)
next
  assume a: "platform_name \<in> fst ` set deps
             \<and> package_manager \<notin> fst ` set (commands platform_name)"
  then obtain pkgs where "map_of deps platform_name = Some pkgs"
    by (metis map_of_eq_None_iff not_Some_eq)
  moreover from a have "map_of (commands platform_name) package_manager = None"
    by (simp add: map_of_eq_None_iff)
  ultimately show "install_dependencies env platform_name package_manager s =
        ((False, ''Unsupported package manager: '' @ package_manager),
         emit (Call Install_dependencies) s)"
    by (simp add: install_dependencies_def)
next
  show "py_in ''Unsupported platform'' (''Unsupported platform: '' @ platform_name)"
    by simp
next
  show "py_in ''Unsupported package manager''
          (''Unsupported package manager: '' @ package_manager)"
    by simp
next
  show "shell_commands (events_since s (emit (Call Install_dependencies) s)) = []"
    by (simp add: events_since_def emit_def)
next
  show "world (emit (Call Install_dependencies) s) = world s"
    by (simp add: emit_def)
qed

theorem install_dependencies_unsupported_witness:
  "''linux'' \<notin> fst ` set deps
   \<and> install_dependencies (host ''Linux'' [] (reports [])) ''linux'' ''unknown'' (start [])
       = ((False, ''Unsupported platform: linux''),
          \<lparr>world = [], trace = [Call Install_dependencies]\<rparr>)
   \<and> ''ubuntu'' \<in> fst ` set deps
   \<and> ''vcpkg'' \<notin> fst ` set (commands ''ubuntu'')
   \<and> install_dependencies (host ''Linux'' [] (reports [])) ''ubuntu'' ''vcpkg'' (start [])
       = ((False, ''Unsupported package manager: vcpkg''),
          \<lparr>world = [], trace = [Call Install_dependencies]\<rparr>)"
proof -
  let ?h = "host ''Linux'' [] (reports [])"
  have a: "''linux'' \<notin> fst ` set deps" by (simp add: deps_def)
  have b: "''ubuntu'' \<in> fst ` set deps" by (simp add: deps_def)
  have c: "''vcpkg'' \<notin> fst ` set (commands ''ubuntu'')" by (simp add: commands_def)
  from install_dependencies_unsupported [of "''linux''" ?h "''unknown''" "start []"]
    install_dependencies_unsupported [of "''ubuntu''" ?h "''vcpkg''" "start []"] a b c
  show ?thesis by (simp add: start_def emit_def)
qed

subsection \<open>Source builder\<close>

lemma str_4: "py_str_nat 4 = ''4''"
  by code_simp

lemma make_command_host: "make_command (host sys path respond) = ''make -j4''"
  by (simp add: make_command_def host_def str_4)

text \<open>
  The source builder unfolded over the outcomes of its six commands: its result, the
  outcomes it leaves in the trace, and the commands it runs.
\<close>

lemma build_notcurses_unfold:
  assumes "mkdtemp env (world s) = (d, w1)"
    and "nd = path_join env d ''notcurses''"
    and "bd = path_join env nd ''build''"
    and "spawn env w1 ''git clone https://github.com/dankamongmen/notcurses.git'' (Some d) = (p1, w2)"
    and "spawn env w2 ''git checkout v3.0.11'' (Some nd) = (p2, w3)"
    and "spawn env (makedirs env w3 bd) ''cmake .. -DCMAKE_BUILD_TYPE=Release'' (Some bd) = (p3, w4)"
    and "spawn env w4 (make_command env) (Some bd) = (p4, w5)"
    and "spawn env w5 ''sudo make install'' (Some bd) = (p5, w6)"
    and "spawn env w6 ''sudo ldconfig'' None = (p6, w7)"
  shows "fst (build_notcurses env s) =
      (if returncode p1 \<noteq> 0 then (False, ''Failed to clone notcurses: '' @ stderr p1)
       else if returncode p2 \<noteq> 0 then (False, ''Failed to checkout v3.0.11: '' @ stderr p2)
       else if returncode p3 \<noteq> 0 then (False, ''Failed to configure build: '' @ stderr p3)
       else if returncode p4 \<noteq> 0 then (False, ''Failed to build notcurses: '' @ stderr p4)
       else if returncode p5 \<noteq> 0 then (False, ''Failed to install notcurses: '' @ stderr p5)
       else (True, ''notcurses 3.0.11 installed successfully''))"
  using assms
  by (simp add: build_notcurses_def build_body_def run_command_eq console_print_def
        emit_def make_command_def Let_def)


lemma build_notcurses_events:
  assumes "mkdtemp env (world s) = (d, w1)"
    and "nd = path_join env d ''notcurses''"
    and "bd = path_join env nd ''build''"
    and "spawn env w1 ''git clone https://github.com/dankamongmen/notcurses.git'' (Some d) = (p1, w2)"
    and "spawn env w2 ''git checkout v3.0.11'' (Some nd) = (p2, w3)"
    and "spawn env (makedirs env w3 bd) ''cmake .. -DCMAKE_BUILD_TYPE=Release'' (Some bd) = (p3, w4)"
    and "spawn env w4 (make_command env) (Some bd) = (p4, w5)"
    and "spawn env w5 ''sudo make install'' (Some bd) = (p5, w6)"
    and "spawn env w6 ''sudo ldconfig'' None = (p6, w7)"
  shows "shell_results (events_since s (snd (build_notcurses env s))) =
      (if returncode p1 \<noteq> 0 then [p1]
       else if returncode p2 \<noteq> 0 then [p1, p2]
       else if returncode p3 \<noteq> 0 then [p1, p2, p3]
       else if returncode p4 \<noteq> 0 then [p1, p2, p3, p4]
       else if returncode p5 \<noteq> 0 then [p1, p2, p3, p4, p5]
       else if py_lower (platform_system env) = ''linux'' then [p1, p2, p3, p4, p5, p6]
       else [p1, p2, p3, p4, p5])"
    and "shell_commands (events_since s (snd (build_notcurses env s))) =
      take (if returncode p1 \<noteq> 0 then 1
            else if returncode p2 \<noteq> 0 then 2
            else if returncode p3 \<noteq> 0 then 3
            else if returncode p4 \<noteq> 0 then 4
            else if returncode p5 \<noteq> 0 then 5
            else if py_lower (platform_system env) = ''linux'' then 6
            else 5)
        [''git clone https://github.com/dankamongmen/notcurses.git'', ''git checkout v3.0.11'',
         ''cmake .. -DCMAKE_BUILD_TYPE=Release'', make_command env, ''sudo make install'',
         ''sudo ldconfig'']"
  using assms
  by (simp_all add: build_notcurses_def build_body_def run_command_eq console_print_def
        emit_def make_command_def events_since_def Let_def)

text \<open>
  C5. When the clone command fails, the source builder runs no other command: the clone
  is the only command of its trace, the temporary directory is removed, and the result is
  failure with the message ``Failed to clone notcurses: '' followed by the standard error
  of the clone.
\<close>

theorem clone_failure_short_circuits:
  "mkdtemp env (world s) = (temp_dir, w1) \<Longrightarrow>
   spawn env w1 ''git clone https://github.com/dankamongmen/notcurses.git'' (Some temp_dir) = (p, w2) \<Longrightarrow>
   returncode p \<noteq> 0 \<Longrightarrow>
     build_notcurses env s =
       ((False, ''Failed to clone notcurses: '' @ stderr p),
        \<lparr>world = rmtree env w2 temp_dir,
         trace = trace s @
           [Call Build_notcurses, Mkdtemp temp_dir,
            Print ''[blue]Downloading notcurses source...[/blue]'',
            Exec ''git clone https://github.com/dankamongmen/notcurses.git'' (Some temp_dir) p,
            Rmtree temp_dir]\<rparr>)
     \<and> shell_commands (events_since s (snd (build_notcurses env s)))
         = [''git clone https://github.com/dankamongmen/notcurses.git'']
     \<and> py_in ''clone'' (snd (fst (build_notcurses env s)))
     \<and> py_in (stderr p) (snd (fst (build_notcurses env s)))"
proof -
  assume a: "mkdtemp env (world s) = (temp_dir, w1)"
    "spawn env w1 ''git clone https://github.com/dankamongmen/notcurses.git'' (Some temp_dir) = (p, w2)"
    "returncode p \<noteq> 0"
  have run: "build_notcurses env s =
       ((False, ''Failed to clone notcurses: '' @ stderr p),
        \<lparr>world = rmtree env w2 temp_dir,
         trace = trace s @
           [Call Build_notcurses, Mkdtemp temp_dir,
            Print ''[blue]Downloading notcurses source...[/blue]'',
            Exec ''git clone https://github.com/dankamongmen/notcurses.git'' (Some temp_dir) p,
            Rmtree temp_dir]\<rparr>)"
    using a
    by (simp add: build_notcurses_def build_body_def run_command_eq console_print_def
        emit_def Let_def)
  have "py_in ''clone'' (''Failed to '' @ ''clone'' @ '' notcurses: '' @ stderr p)"
    unfolding py_in_iff by blast
  then have c: "py_in ''clone'' (''Failed to clone notcurses: '' @ stderr p)" by simp
  have d: "py_in (stderr p) (''Failed to clone notcurses: '' @ stderr p)"
    by (rule py_in_suffix)
  show ?thesis
  proof (intro conjI)
    show "build_notcurses env s =
       ((False, ''Failed to clone notcurses: '' @ stderr p),
        \<lparr>world = rmtree env w2 temp_dir,
         trace = trace s @
           [Call Build_notcurses, Mkdtemp temp_dir,
            Print ''[blue]Downloading notcurses source...[/blue]'',
            Exec ''git clone https://github.com/dankamongmen/notcurses.git'' (Some temp_dir) p,
            Rmtree temp_dir]\<rparr>)"
      by (rule run)
    show "shell_commands (events_since s (snd (build_notcurses env s)))
         = [''git clone https://github.com/dankamongmen/notcurses.git'']"
      by (simp add: run events_since_def)
    show "py_in ''clone'' (snd (fst (build_notcurses env s)))"
      unfolding run by (simp only: fst_conv snd_conv c)
    show "py_in (stderr p) (snd (fst (build_notcurses env s)))"
      unfolding run by (simp only: fst_conv snd_conv d)
  qed
qed

theorem clone_failure_short_circuits_witness:
  "mkdtemp (host ''Linux'' [''apt-get'']
      (fails_at ''git clone https://github.com/dankamongmen/notcurses.git'' ''fatal: no network''))
      (world (start [])) = (''/tmp/tmpk3x9'', [])
   \<and> returncode (done_failed ''fatal: no network'') = 1
   \<and> build_notcurses (host ''Linux'' [''apt-get'']
      (fails_at ''git clone https://github.com/dankamongmen/notcurses.git'' ''fatal: no network''))
      (start []) =
       ((False, ''Failed to clone notcurses: fatal: no network''),
        \<lparr>world = [''git clone https://github.com/dankamongmen/notcurses.git''],
         trace =
           [Call Build_notcurses, Mkdtemp ''/tmp/tmpk3x9'',
            Print ''[blue]Downloading notcurses source...[/blue]'',
            Exec ''git clone https://github.com/dankamongmen/notcurses.git''
              (Some ''/tmp/tmpk3x9'') (done_failed ''fatal: no network''),
            Rmtree ''/tmp/tmpk3x9'']\<rparr>)"
proof -
  let ?h = "host ''Linux'' [''apt-get'']
      (fails_at ''git clone https://github.com/dankamongmen/notcurses.git'' ''fatal: no network'')"
  have a: "mkdtemp ?h (world (start [])) = (''/tmp/tmpk3x9'', [])"
    by (simp add: host_def start_def)
  have b: "spawn ?h [] ''git clone https://github.com/dankamongmen/notcurses.git''
             (Some ''/tmp/tmpk3x9'')
           = (done_failed ''fatal: no network'',
              [''git clone https://github.com/dankamongmen/notcurses.git''])"
    by (simp add: host_def fails_at_def)
  have c: "returncode (done_failed ''fatal: no network'') \<noteq> 0"
    by (simp add: done_failed_def)
  from clone_failure_short_circuits [OF a b c] a c
  show ?thesis by (simp add: host_def start_def done_failed_def)
qed

text \<open>
  C4, as the code has it. Of the outcomes the source builder leaves in its trace, the
  first five are those of the gated commands clone, checkout, configure, compile and
  install, run in this order and each only after all before it returned 0. The result is
  success exactly when all five returned 0; otherwise the failing command is the last one
  run, and the message is its failure text followed by its standard error. After five
  successes the refresh of the linker cache runs on Linux only, and its outcome changes
  nothing of the result.
\<close>

theorem build_notcurses_result:
  assumes run: "build_notcurses env s = ((ok, msg), s')"
    and cs: "cs = shell_commands (events_since s s')"
    and rs: "rs = shell_results (events_since s s')"
    and gs: "gs = take 5 rs"
  shows "gs \<noteq> []
     \<and> take (length gs) cs = map fst (take (length gs) (gated_steps env))
     \<and> list_all (\<lambda>p. returncode p = 0) (butlast gs)
     \<and> ok = (length gs = 5 \<and> returncode (last gs) = 0)
     \<and> (ok \<longrightarrow> msg = ''notcurses 3.0.11 installed successfully''
             \<and> drop 5 cs = (if py_lower (platform_system env) = ''linux''
                            then [''sudo ldconfig''] else []))
     \<and> (\<not> ok \<longrightarrow> rs = gs \<and> returncode (last gs) \<noteq> 0
             \<and> msg = snd (gated_steps env ! (length gs - 1)) @ stderr (last gs))"
proof -
  define nd where "nd = path_join env (fst (mkdtemp env (world s))) ''notcurses''"
  define bd where "bd = path_join env nd ''build''"
  obtain d w1 where 0: "mkdtemp env (world s) = (d, w1)" by fastforce
  obtain p1 w2 where 1:
    "spawn env w1 ''git clone https://github.com/dankamongmen/notcurses.git'' (Some d) = (p1, w2)"
    by fastforce
  obtain p2 w3 where 2: "spawn env w2 ''git checkout v3.0.11'' (Some nd) = (p2, w3)"
    by fastforce
  obtain p3 w4 where 3:
    "spawn env (makedirs env w3 bd) ''cmake .. -DCMAKE_BUILD_TYPE=Release'' (Some bd) = (p3, w4)"
    by fastforce
  obtain p4 w5 where 4: "spawn env w4 (make_command env) (Some bd) = (p4, w5)" by fastforce
  obtain p5 w6 where 5: "spawn env w5 ''sudo make install'' (Some bd) = (p5, w6)" by fastforce
  obtain p6 w7 where 6: "spawn env w6 ''sudo ldconfig'' None = (p6, w7)" by fastforce
  have nd: "nd = path_join env d ''notcurses''" by (simp add: nd_def 0)
  have om: "fst (build_notcurses env s) = (ok, msg)" and s': "snd (build_notcurses env s) = s'"
    using run by simp_all
  note res = build_notcurses_unfold [OF 0 nd bd_def 1 2 3 4 5 6, unfolded om]
  note evs = build_notcurses_events [OF 0 nd bd_def 1 2 3 4 5 6, unfolded s', folded rs cs]
  consider (c1) "returncode p1 \<noteq> 0"
    | (c2) "returncode p1 = 0" "returncode p2 \<noteq> 0"
    | (c3) "returncode p1 = 0" "returncode p2 = 0" "returncode p3 \<noteq> 0"
    | (c4) "returncode p1 = 0" "returncode p2 = 0" "returncode p3 = 0" "returncode p4 \<noteq> 0"
    | (c5) "returncode p1 = 0" "returncode p2 = 0" "returncode p3 = 0" "returncode p4 = 0"
        "returncode p5 \<noteq> 0"
    | (c6) "returncode p1 = 0" "returncode p2 = 0" "returncode p3 = 0" "returncode p4 = 0"
        "returncode p5 = 0"
    by blast
  then show ?thesis
  proof cases
    case c1
    have "rs = [p1]" using evs(1) c1 by simp
    moreover have "cs = [''git clone https://github.com/dankamongmen/notcurses.git'']"
      using evs(2) c1 by simp
    moreover have "ok = False" "msg = ''Failed to clone notcurses: '' @ stderr p1"
      using res c1 by simp_all
    ultimately show ?thesis using c1 by (simp add: gs gated_steps_def)
  next
    case c2
    have "rs = [p1, p2]" using evs(1) c2 by simp
    moreover have "cs = [''git clone https://github.com/dankamongmen/notcurses.git'',
        ''git checkout v3.0.11'']"
      using evs(2) c2 by simp
    moreover have "ok = False" "msg = ''Failed to checkout v3.0.11: '' @ stderr p2"
      using res c2 by simp_all
    ultimately show ?thesis using c2 by (simp add: gs gated_steps_def)
  next
    case c3
    have "rs = [p1, p2, p3]" using evs(1) c3 by simp
    moreover have "cs = [''git clone https://github.com/dankamongmen/notcurses.git'',
        ''git checkout v3.0.11'', ''cmake .. -DCMAKE_BUILD_TYPE=Release'']"
      using evs(2) c3 by simp
    moreover have "ok = False" "msg = ''Failed to configure build: '' @ stderr p3"
      using res c3 by simp_all
    ultimately show ?thesis using c3 by (simp add: gs gated_steps_def)
  next
    case c4
    have "rs = [p1, p2, p3, p4]" using evs(1) c4 by simp
    moreover have "cs = [''git clone https://github.com/dankamongmen/notcurses.git'',
        ''git checkout v3.0.11'', ''cmake .. -DCMAKE_BUILD_TYPE=Release'', make_command env]"
      using evs(2) c4 by simp
    moreover have "ok = False" "msg = ''Failed to build notcurses: '' @ stderr p4"
      using res c4 by simp_all
    ultimately show ?thesis using c4 by (simp add: gs gated_steps_def)
  next
    case c5
    have "rs = [p1, p2, p3, p4, p5]" using evs(1) c5 by simp
    moreover have "cs = [''git clone https://github.com/dankamongmen/notcurses.git'',
        ''git checkout v3.0.11'', ''cmake .. -DCMAKE_BUILD_TYPE=Release'', make_command env,
        ''sudo make install'']"
      using evs(2) c5 by simp
    moreover have "ok = False" "msg = ''Failed to install notcurses: '' @ stderr p5"
      using res c5 by simp_all
    ultimately show ?thesis using c5 by (simp add: gs gated_steps_def)
  next
    case c6
    have "rs = [p1, p2, p3, p4, p5] @
                 (if py_lower (platform_system env) = ''linux'' then [p6] else [])"
      using evs(1) c6 by simp
    moreover have "cs = [''git clone https://github.com/dankamongmen/notcurses.git'',
        ''git checkout v3.0.11'', ''cmake .. -DCMAKE_BUILD_TYPE=Release'', make_command env,
        ''sudo make install''] @
        (if py_lower (platform_system env) = ''linux'' then [''sudo ldconfig''] else [])"
      using evs(2) c6 by simp
    moreover have "ok = True" "msg = ''notcurses 3.0.11 installed successfully''"
      using res c6 by simp_all
    ultimately show ?thesis using c6 by (simp add: gs gated_steps_def)
  qed
qed

theorem build_notcurses_result_witness:
  "fst (build_notcurses (host ''Linux'' [''apt-get''] (fails_at ''make -j4'' ''cc1: out of memory''))
         (start []))
     = (False, ''Failed to build notcurses: cc1: out of memory'')
   \<and> shell_commands (events_since (start [])
        (snd (build_notcurses
               (host ''Linux'' [''apt-get''] (fails_at ''make -j4'' ''cc1: out of memory''))
               (start []))))
     = [''git clone https://github.com/dankamongmen/notcurses.git'', ''git checkout v3.0.11'',
        ''cmake .. -DCMAKE_BUILD_TYPE=Release'', ''make -j4'']
   \<and> map returncode (shell_results (events_since (start [])
        (snd (build_notcurses
               (host ''Linux'' [''apt-get''] (fails_at ''make -j4'' ''cc1: out of memory''))
               (start [])))))
     = [0, 0, 0, 1]"
proof -
  let ?h = "host ''Linux'' [''apt-get''] (fails_at ''make -j4'' ''cc1: out of memory'')"
  have run: "build_notcurses ?h (start []) =
     ((False, ''Failed to build notcurses: cc1: out of memory''),
      \<lparr>world = [''git clone https://github.com/dankamongmen/notcurses.git'',
                ''git checkout v3.0.11'', ''cmake .. -DCMAKE_BUILD_TYPE=Release'', ''make -j4''],
       trace =
         [Call Build_notcurses, Mkdtemp ''/tmp/tmpk3x9'',
          Print ''[blue]Downloading notcurses source...[/blue]'',
          Exec ''git clone https://github.com/dankamongmen/notcurses.git''
            (Some ''/tmp/tmpk3x9'') (done_ok []),
          Exec ''git checkout v3.0.11'' (Some ''/tmp/tmpk3x9/notcurses'') (done_ok []),
          Makedirs ''/tmp/tmpk3x9/notcurses/build'',
          Print ''[blue]Configuring build...[/blue]'',
          Exec ''cmake .. -DCMAKE_BUILD_TYPE=Release'' (Some ''/tmp/tmpk3x9/notcurses/build'')
            (done_ok []),
          Print ''[blue]Building notcurses (this may take a few minutes)...[/blue]'',
          Exec ''make -j4'' (Some ''/tmp/tmpk3x9/notcurses/build'')
            (done_failed ''cc1: out of memory''),
          Rmtree ''/tmp/tmpk3x9'']\<rparr>)"
    by (simp add: build_notcurses_def build_body_def run_command_eq console_print_def emit_def
        start_def host_def fails_at_def str_4 done_ok_def done_failed_def Let_def)
  from build_notcurses_result [OF run refl refl refl] run
  show ?thesis
    by (simp add: events_since_def start_def done_ok_def done_failed_def)
qed

text \<open>
  On a Linux host where only the refresh of the linker cache fails, the source builder
  still answers success.
\<close>

theorem refresh_failure_ignored:
  "py_lower (platform_system (host ''Linux'' [''apt-get''] (fails_at ''sudo ldconfig'' ''denied'')))
     = ''linux''
   \<and> fst (build_notcurses (host ''Linux'' [''apt-get''] (fails_at ''sudo ldconfig'' ''denied''))
          (start []))
     = (True, ''notcurses 3.0.11 installed successfully'')
   \<and> shell_commands (trace (snd (build_notcurses
          (host ''Linux'' [''apt-get''] (fails_at ''sudo ldconfig'' ''denied'')) (start []))))
     = [''git clone https://github.com/dankamongmen/notcurses.git'', ''git checkout v3.0.11'',
        ''cmake .. -DCMAKE_BUILD_TYPE=Release'', ''make -j4'', ''sudo make install'',
        ''sudo ldconfig'']
   \<and> map returncode (shell_results (trace (snd (build_notcurses
          (host ''Linux'' [''apt-get''] (fails_at ''sudo ldconfig'' ''denied'')) (start [])))))
     = [0, 0, 0, 0, 0, 1]"
  by (simp add: build_notcurses_def build_body_def run_command_eq console_print_def emit_def
      start_def host_def fails_at_def str_4 lower_Linux done_ok_def done_failed_def Let_def)

subsection \<open>Orchestrator\<close>

text \<open>
  C8. When the detector names the platform \<open>unknown\<close>, the orchestrator exits with code 1
  whatever the three flags are, having entered neither the dependency installer nor the
  source builder and having run no command.
\<close>

theorem unknown_platform_exits_first:
  "fst (detect_platform env w) = ''unknown'' \<Longrightarrow>
     fst (main env f (start w)) = SysExit 1
     \<and> exit_code (fst (main env f (start w))) = 1
     \<and> calls (trace (snd (main env f (start w)))) = []
     \<and> shell_commands (trace (snd (main env f (start w)))) = []
     \<and> world (snd (main env f (start w))) = w"
  by (simp add: main_def start_def console_print_def emit_def case_prod_beta Let_def)

theorem unknown_platform_exits_first_witness:
  "fst (detect_platform (host ''Java'' [''apt-get''] (reports [])) []) = ''unknown''
   \<and> main (host ''Java'' [''apt-get''] (reports []))
        \<lparr>skip_deps = False, skip_build = False, test = True\<rparr> (start [])
      = (SysExit 1,
         \<lparr>world = [],
          trace = [Print banner,
                   Print ''[green]Detected platform: unknown (unknown)[/green]'',
                   Print ''[red]ERROR: Unsupported platform detected[/red]'',
                   Print ''Supported platforms:'',
                   Print ''  - Linux (Ubuntu, Fedora, Arch)'',
                   Print ''  - macOS (with Homebrew)'',
                   Print ''  - Windows (with MSYS2)'']\<rparr>)"
proof -
  let ?h = "host ''Java'' [''apt-get''] (reports [])"
  have dp: "detect_platform ?h [] = (''unknown'', ''unknown'')"
    by (simp add: detect_platform_def host_def lower_Java Let_def)
  then have u: "fst (detect_platform ?h []) = ''unknown''" by simp
  have run: "main ?h \<lparr>skip_deps = False, skip_build = False, test = True\<rparr> (start [])
      = (SysExit 1,
         \<lparr>world = [],
          trace = [Print banner,
                   Print ''[green]Detected platform: unknown (unknown)[/green]'',
                   Print ''[red]ERROR: Unsupported platform detected[/red]'',
                   Print ''Supported platforms:'',
                   Print ''  - Linux (Ubuntu, Fedora, Arch)'',
                   Print ''  - macOS (with Homebrew)'',
                   Print ''  - Windows (with MSYS2)'']\<rparr>)"
    by (simp add: main_def dp start_def console_print_def emit_def Let_def)
  from unknown_platform_exits_first [OF u] u run show ?thesis by simp
qed

text \<open>
  What each function and each stage adds to the trace, and how a stage can end.
\<close>

lemma install_dependencies_trace:
  "\<exists>evs. trace (snd (install_dependencies env pn pm s)) = trace s @ evs
         \<and> calls evs = [Install_dependencies]"
  by (simp add: install_dependencies_def run_command_eq console_print_def emit_def Let_def
      split: option.splits)

lemma build_notcurses_calls_unfold:
  assumes "mkdtemp env (world s) = (d, w1)"
    and "nd = path_join env d ''notcurses''"
    and "bd = path_join env nd ''build''"
    and "spawn env w1 ''git clone https://github.com/dankamongmen/notcurses.git'' (Some d) = (p1, w2)"
    and "spawn env w2 ''git checkout v3.0.11'' (Some nd) = (p2, w3)"
    and "spawn env (makedirs env w3 bd) ''cmake .. -DCMAKE_BUILD_TYPE=Release'' (Some bd) = (p3, w4)"
    and "spawn env w4 (make_command env) (Some bd) = (p4, w5)"
    and "spawn env w5 ''sudo make install'' (Some bd) = (p5, w6)"
    and "spawn env w6 ''sudo ldconfig'' None = (p6, w7)"
  shows "take (length (trace s)) (trace (snd (build_notcurses env s))) = trace s"
    and "calls (events_since s (snd (build_notcurses env s))) = [Build_notcurses]"
  using assms
  by (simp_all add: build_notcurses_def build_body_def run_command_eq console_print_def
        emit_def make_command_def events_since_def Let_def)

lemma build_notcurses_trace:
  "\<exists>evs. trace (snd (build_notcurses env s)) = trace s @ evs \<and> calls evs = [Build_notcurses]"
proof -
  define nd where "nd = path_join env (fst (mkdtemp env (world s))) ''notcurses''"
  define bd where "bd = path_join env nd ''build''"
  obtain d w1 where 0: "mkdtemp env (world s) = (d, w1)" by fastforce
  obtain p1 w2 where 1:
    "spawn env w1 ''git clone https://github.com/dankamongmen/notcurses.git'' (Some d) = (p1, w2)"
    by fastforce
  obtain p2 w3 where 2: "spawn env w2 ''git checkout v3.0.11'' (Some nd) = (p2, w3)"
    by fastforce
  obtain p3 w4 where 3:
    "spawn env (makedirs env w3 bd) ''cmake .. -DCMAKE_BUILD_TYPE=Release'' (Some bd) = (p3, w4)"
    by fastforce
  obtain p4 w5 where 4: "spawn env w4 (make_command env) (Some bd) = (p4, w5)" by fastforce
  obtain p5 w6 where 5: "spawn env w5 ''sudo make install'' (Some bd) = (p5, w6)" by fastforce
  obtain p6 w7 where 6: "spawn env w6 ''sudo ldconfig'' None = (p6, w7)" by fastforce
  have nd: "nd = path_join env d ''notcurses''" by (simp add: nd_def 0)
  note f = build_notcurses_calls_unfold [OF 0 nd bd_def 1 2 3 4 5 6]
  have "trace (snd (build_notcurses env s)) =
          trace s @ events_since s (snd (build_notcurses env s))"
    unfolding events_since_def using f(1) by (metis append_take_drop_id)
  with f(2) show ?thesis by blast
qed

lemma deps_stage_trace:
  "\<exists>evs. trace (snd (deps_stage env f pn pm s)) = trace s @ evs
         \<and> Build_notcurses \<notin> set (calls evs)"
proof (cases "skip_deps f")
  case True
  then show ?thesis by (simp add: deps_stage_def)
next
  case False
  obtain evs where e: "trace (snd (install_dependencies env pn pm s)) = trace s @ evs"
    "calls evs = [Install_dependencies]"
    using install_dependencies_trace by blast
  have "\<exists>t. trace (snd (deps_stage env f pn pm s)) = trace s @ (evs @ [Print t])"
    using False e(1) by (simp add: deps_stage_def console_print_def emit_def case_prod_beta)
  then obtain t where "trace (snd (deps_stage env f pn pm s)) = trace s @ (evs @ [Print t])"
    by blast
  moreover have "Build_notcurses \<notin> set (calls (evs @ [Print t]))"
    using e(2) by (simp add: calls_append)
  ultimately show ?thesis by blast
qed

lemma deps_stage_exit: "fst (deps_stage env f pn pm s) = Some r \<Longrightarrow> r = SysExit 1"
  by (simp add: deps_stage_def case_prod_beta split: if_splits)

lemma build_stage_trace:
  "\<exists>evs. trace (snd (build_stage env f pn s)) = trace s @ evs
         \<and> (Build_notcurses \<in> set (calls evs) \<longrightarrow>
              \<not> skip_build f \<and> pn \<notin> {''arch'', ''macos''})"
proof (cases "\<not> skip_build f \<and> pn \<notin> set [''arch'', ''macos'']")
  case False
  then have "build_stage env f pn s = (None, s)" by (auto simp add: build_stage_def)
  then have "trace (snd (build_stage env f pn s)) = trace s @ [] \<and>
    (Build_notcurses \<in> set (calls []) \<longrightarrow> \<not> skip_build f \<and> pn \<notin> {''arch'', ''macos''})"
    by simp
  then show ?thesis by blast
next
  case True
  obtain evs where e: "trace (snd (build_notcurses env s)) = trace s @ evs"
    using build_notcurses_trace by blast
  have "\<exists>t. trace (snd (build_stage env f pn s)) = trace s @ (evs @ [Print t])"
    using True e by (simp add: build_stage_def console_print_def emit_def case_prod_beta)
  then obtain t where "trace (snd (build_stage env f pn s)) = trace s @ (evs @ [Print t])"
    by blast
  moreover have "\<not> skip_build f \<and> pn \<notin> {''arch'', ''macos''}" using True by simp
  ultimately show ?thesis by blast
qed

lemma build_stage_exit: "fst (build_stage env f pn s) = Some r \<Longrightarrow> r = SysExit 1"
  by (simp add: build_stage_def case_prod_beta split: if_splits)

lemma test_stage_trace:
  "\<exists>evs. trace (snd (test_stage env f s)) = trace s @ evs \<and> calls evs = []"
  by (simp add: test_stage_def run_command_eq console_print_def emit_def Let_def)

lemma test_stage_exit: "fst (test_stage env f s) = Some r \<Longrightarrow> r = SysExit 1"
  by (simp add: test_stage_def run_command_eq Let_def split: if_splits)

lemma test_stage_passed:
  "test f \<Longrightarrow> test_stage env f s = (None, s') \<Longrightarrow>
     trace s' = trace s @
           [Print ''[blue]Testing installation...[/blue]'',
            Exec pkg_config_query None (fst (spawn env (world s) pkg_config_query None)),
            Print (''[green]SUCCESS: notcurses '' @
                   py_strip (stdout (fst (spawn env (world s) pkg_config_query None))) @
                   '' detected[/green]'')]
     \<and> returncode (fst (spawn env (world s) pkg_config_query None)) = 0"
  by (auto simp add: test_stage_def run_command_eq console_print_def emit_def Let_def
      split: if_splits)

lemma stages_trace:
  "\<exists>evs. trace (snd (stages env f pn pm s)) = trace s @ evs
         \<and> (Build_notcurses \<in> set (calls evs) \<longrightarrow>
              \<not> skip_build f \<and> pn \<notin> {''arch'', ''macos''})"
proof -
  obtain r1 s1 where d: "deps_stage env f pn pm s = (r1, s1)" by fastforce
  obtain r2 s2 where b: "build_stage env f pn s1 = (r2, s2)" by fastforce
  obtain r3 s3 where t: "test_stage env f s2 = (r3, s3)" by fastforce
  obtain e1 where e1: "trace s1 = trace s @ e1" "Build_notcurses \<notin> set (calls e1)"
    using deps_stage_trace [of env f pn pm s] d by auto
  obtain e2 where e2: "trace s2 = trace s1 @ e2"
    "Build_notcurses \<in> set (calls e2) \<longrightarrow> \<not> skip_build f \<and> pn \<notin> {''arch'', ''macos''}"
    using build_stage_trace [of env f pn s1] b by auto
  obtain e3 where e3: "trace s3 = trace s2 @ e3" "calls e3 = []"
    using test_stage_trace [of env f s2] t by auto
  consider (a) "\<exists>r. r1 = Some r" | (b) "r1 = None" "\<exists>r. r2 = Some r"
    | (c) "r1 = None" "r2 = None" "\<exists>r. r3 = Some r" | (d) "r1 = None" "r2 = None" "r3 = None"
    by blast
  then show ?thesis
  proof cases
    case a
    then have "trace (snd (stages env f pn pm s)) = trace s @ e1"
      using d e1 by (auto simp add: stages_def)
    then show ?thesis using e1(2) by blast
  next
    case b
    then have "trace (snd (stages env f pn pm s)) = trace s @ (e1 @ e2)"
      using d \<open>build_stage env f pn s1 = (r2, s2)\<close> e1 e2 by (auto simp add: stages_def)
    moreover have "Build_notcurses \<in> set (calls (e1 @ e2)) \<longrightarrow>
        \<not> skip_build f \<and> pn \<notin> {''arch'', ''macos''}"
      using e1(2) e2(2) by (simp add: calls_append)
    ultimately show ?thesis by blast
  next
    case c
    then have "trace (snd (stages env f pn pm s)) = trace s @ (e1 @ e2 @ e3)"
      using d \<open>build_stage env f pn s1 = (r2, s2)\<close> t e1 e2 e3 by (auto simp add: stages_def)
    moreover have "Build_notcurses \<in> set (calls (e1 @ e2 @ e3)) \<longrightarrow>
        \<not> skip_build f \<and> pn \<notin> {''arch'', ''macos''}"
      using e1(2) e2(2) e3(2) by (simp add: calls_append)
    ultimately show ?thesis by blast
  next
    case d
    then have "trace (snd (stages env f pn pm s)) = trace s @ (e1 @ e2 @ e3 @ [Print complete_text])"
      using \<open>deps_stage env f pn pm s = (r1, s1)\<close> \<open>build_stage env f pn s1 = (r2, s2)\<close> t e1 e2 e3
      by (simp add: stages_def console_print_def emit_def)
    moreover have "Build_notcurses \<in> set (calls (e1 @ e2 @ e3 @ [Print complete_text])) \<longrightarrow>
        \<not> skip_build f \<and> pn \<notin> {''arch'', ''macos''}"
      using e1(2) e2(2) e3(2) by (simp add: calls_append)
    ultimately show ?thesis by blast
  qed
qed

lemma stages_test:
  assumes "test f" and "stages env f pn pm s = (r, s')"
  shows "(r = Returned \<or> r = SysExit 1)
     \<and> (r = Returned \<longrightarrow>
          (\<exists>tr p. trace s' = tr @
               [Exec pkg_config_query None p,
                Print (''[green]SUCCESS: notcurses '' @ py_strip (stdout p) @ '' detected[/green]''),
                Print complete_text]
             \<and> returncode p = 0))"
proof -
  obtain r1 s1 where d: "deps_stage env f pn pm s = (r1, s1)" by fastforce
  obtain r2 s2 where b: "build_stage env f pn s1 = (r2, s2)" by fastforce
  obtain r3 s3 where t: "test_stage env f s2 = (r3, s3)" by fastforce
  consider (a) x where "r1 = Some x" | (b) x where "r1 = None" "r2 = Some x"
    | (c) x where "r1 = None" "r2 = None" "r3 = Some x" | (d) "r1 = None" "r2 = None" "r3 = None"
    by (cases r1; cases r2; cases r3) auto
  then show ?thesis
  proof cases
    case a
    then have "r = x" using d assms(2) by (simp add: stages_def)
    moreover have "x = SysExit 1" using deps_stage_exit [of env f pn pm s x] d a by simp
    ultimately show ?thesis by simp
  next
    case b
    then have "r = x" using d \<open>build_stage env f pn s1 = (r2, s2)\<close> assms(2)
      by (simp add: stages_def)
    moreover have "x = SysExit 1"
      using build_stage_exit [of env f pn s1 x] \<open>build_stage env f pn s1 = (r2, s2)\<close> b by simp
    ultimately show ?thesis by simp
  next
    case c
    then have "r = x" using d \<open>build_stage env f pn s1 = (r2, s2)\<close> t assms(2)
      by (simp add: stages_def)
    moreover have "x = SysExit 1" using test_stage_exit [of env f s2 x] t c by simp
    ultimately show ?thesis by simp
  next
    case d
    then have rs: "r = Returned" "s' = console_print complete_text s3"
      using \<open>deps_stage env f pn pm s = (r1, s1)\<close> \<open>build_stage env f pn s1 = (r2, s2)\<close> t assms(2)
      by (simp_all add: stages_def)
    define p where "p = fst (spawn env (world s2) pkg_config_query None)"
    have "test_stage env f s2 = (None, s3)" using t d by simp
    from test_stage_passed [OF assms(1) this]
    have tr: "trace s3 = trace s2 @
           [Print ''[blue]Testing installation...[/blue]'',
            Exec pkg_config_query None p,
            Print (''[green]SUCCESS: notcurses '' @ py_strip (stdout p) @ '' detected[/green]'')]"
      and ok: "returncode p = 0"
      by (simp_all add: p_def)
    have "trace s' = (trace s2 @ [Print ''[blue]Testing installation...[/blue]'']) @
               [Exec pkg_config_query None p,
                Print (''[green]SUCCESS: notcurses '' @ py_strip (stdout p) @ '' detected[/green]''),
                Print complete_text]"
      using rs(2) tr by (simp add: console_print_def emit_def)
    with ok rs(1) show ?thesis by blast
  qed
qed

lemma main_unknown:
  "fst (detect_platform env (world s)) = ''unknown'' \<Longrightarrow>
     fst (main env f s) = SysExit 1 \<and> calls (events_since s (snd (main env f s))) = []"
  by (simp add: main_def console_print_def emit_def events_since_def case_prod_beta Let_def)

lemma main_eq:
  assumes "detect_platform env (world s) = (pn, pm)" and "pn \<noteq> ''unknown''"
    and "spawn env (world s) pkg_config_query None = (p, w')"
  shows "main env f s =
     (if returncode p = 0 \<and> py_in ''3.0.11'' (stdout p) then
        (if \<not> test f then
           (Returned,
            \<lparr>world = w',
             trace = trace s @
               [Print banner,
                Print (''[green]Detected platform: '' @ pn @ '' ('' @ pm @ '')[/green]''),
                Exec pkg_config_query None p,
                Print ''[green]SUCCESS: notcurses 3.0.11 already installed[/green]'']\<rparr>)
         else stages env f pn pm
            \<lparr>world = w',
             trace = trace s @
               [Print banner,
                Print (''[green]Detected platform: '' @ pn @ '' ('' @ pm @ '')[/green]''),
                Exec pkg_config_query None p,
                Print ''[green]SUCCESS: notcurses 3.0.11 already installed[/green]'']\<rparr>)
      else stages env f pn pm
            \<lparr>world = w',
             trace = trace s @
               [Print banner,
                Print (''[green]Detected platform: '' @ pn @ '' ('' @ pm @ '')[/green]''),
                Exec pkg_config_query None p]\<rparr>)"
  using assms
  by (simp add: main_def run_command_eq console_print_def emit_def Let_def)

lemma main_fast:
  assumes "detect_platform env w = (pn, pm)" and "pn \<noteq> ''unknown''"
    and "spawn env w pkg_config_query None = (p, w')"
    and "returncode p = 0" and "py_in ''3.0.11'' (stdout p)" and "\<not> test f"
  shows "main env f (start w) =
           (Returned,
            \<lparr>world = w',
             trace =
               [Print banner,
                Print (''[green]Detected platform: '' @ pn @ '' ('' @ pm @ '')[/green]''),
                Exec pkg_config_query None p,
                Print ''[green]SUCCESS: notcurses 3.0.11 already installed[/green]'']\<rparr>)"
proof -
  have a: "detect_platform env (world (start w)) = (pn, pm)"
    and b: "spawn env (world (start w)) pkg_config_query None = (p, w')"
    using assms(1,3) by (simp_all add: start_def)
  have c: "returncode p = 0 \<and> py_in ''3.0.11'' (stdout p)" using assms(4,5) by simp
  show ?thesis
    unfolding main_eq [OF a assms(2) b] if_P [OF c] if_P [OF assms(6)]
    by (simp add: start_def)
qed

lemma main_again:
  assumes "detect_platform env w = (pn, pm)" and "pn \<noteq> ''unknown''"
    and "spawn env w pkg_config_query None = (p, w')"
    and "returncode p = 0" and "py_in ''3.0.11'' (stdout p)" and "test f"
  shows "main env f (start w) =
           stages env f pn pm
            \<lparr>world = w',
             trace =
               [Print banner,
                Print (''[green]Detected platform: '' @ pn @ '' ('' @ pm @ '')[/green]''),
                Exec pkg_config_query None p,
                Print ''[green]SUCCESS: notcurses 3.0.11 already installed[/green]'']\<rparr>"
proof -
  have a: "detect_platform env (world (start w)) = (pn, pm)"
    and b: "spawn env (world (start w)) pkg_config_query None = (p, w')"
    using assms(1,3) by (simp_all add: start_def)
  have c: "returncode p = 0 \<and> py_in ''3.0.11'' (stdout p)" using assms(4,5) by simp
  have d: "\<not> \<not> test f" using assms(6) by simp
  show ?thesis
    unfolding main_eq [OF a assms(2) b] if_P [OF c] if_not_P [OF d]
    by (simp add: start_def)
qed

lemma main_install:
  assumes "detect_platform env w = (pn, pm)" and "pn \<noteq> ''unknown''"
    and "spawn env w pkg_config_query None = (p, w')"
    and "\<not> (returncode p = 0 \<and> py_in ''3.0.11'' (stdout p))"
  shows "main env f (start w) =
           stages env f pn pm
            \<lparr>world = w',
             trace =
               [Print banner,
                Print (''[green]Detected platform: '' @ pn @ '' ('' @ pm @ '')[/green]''),
                Exec pkg_config_query None p]\<rparr>"
proof -
  have a: "detect_platform env (world (start w)) = (pn, pm)"
    and b: "spawn env (world (start w)) pkg_config_query None = (p, w')"
    using assms(1,3) by (simp_all add: start_def)
  show ?thesis
    unfolding main_eq [OF a assms(2) b] if_not_P [OF assms(4)]
    by (simp add: start_def)
qed

text \<open>
  C9. Whenever the platform is known, the version query returns 0 and its standard output
  contains \<^verbatim>\<open>3.0.11\<close> anywhere, the orchestrator prints that the library is already
  installed; without \<^verbatim>\<open>--test\<close> it then returns, exit code 0, having entered neither the
  dependency installer nor the source builder. The test is a substring test, so an output
  such as \<^verbatim>\<open>3.0.11-rc1\<close> or \<^verbatim>\<open>13.0.112\<close> takes this path too.
\<close>

theorem already_installed_fast_path:
  assumes "fst (detect_platform env w) \<noteq> ''unknown''"
    and "spawn env w pkg_config_query None = (p, w')"
    and "returncode p = 0"
    and "py_in ''3.0.11'' (stdout p)"
  shows "take 4 (trace (snd (main env f (start w)))) =
       [Print banner,
        Print (''[green]Detected platform: '' @ fst (detect_platform env w) @ '' ('' @
               snd (detect_platform env w) @ '')[/green]''),
        Exec pkg_config_query None p,
        Print ''[green]SUCCESS: notcurses 3.0.11 already installed[/green]'']
     \<and> (\<not> test f \<longrightarrow>
          main env f (start w) =
            (Returned,
             \<lparr>world = w',
              trace =
                [Print banner,
                 Print (''[green]Detected platform: '' @ fst (detect_platform env w) @ '' ('' @
                        snd (detect_platform env w) @ '')[/green]''),
                 Exec pkg_config_query None p,
                 Print ''[green]SUCCESS: notcurses 3.0.11 already installed[/green]'']\<rparr>)
          \<and> exit_code (fst (main env f (start w))) = 0
          \<and> calls (trace (snd (main env f (start w)))) = [])"
proof -
  obtain pn pm where dp: "detect_platform env w = (pn, pm)" by fastforce
  have pn: "pn \<noteq> ''unknown''" "fst (detect_platform env w) = pn" "snd (detect_platform env w) = pm"
    using assms(1) dp by simp_all
  let ?a = "[Print banner,
                Print (''[green]Detected platform: '' @ pn @ '' ('' @ pm @ '')[/green]''),
                Exec pkg_config_query None p,
                Print ''[green]SUCCESS: notcurses 3.0.11 already installed[/green]'']"
  obtain ea where ea: "trace (snd (stages env f pn pm \<lparr>world = w', trace = ?a\<rparr>)) = ?a @ ea"
    using stages_trace [of env f pn pm "\<lparr>world = w', trace = ?a\<rparr>"] by auto
  show ?thesis
  proof (cases "test f")
    case True
    have "trace (snd (main env f (start w))) = ?a @ ea"
      unfolding main_again [OF dp pn(1) assms(2,3,4) True] by (rule ea)
    then show ?thesis using True pn(2,3) by simp
  next
    case False
    note run = main_fast [OF dp pn(1) assms(2,3,4) False]
    show ?thesis unfolding pn(2,3) run using False by simp
  qed
qed

theorem already_installed_fast_path_witness:
  "py_in ''3.0.11'' (stdout (done_ok (''13.0.112'' @ [CHR 0x0A])))
   \<and> main (host ''Linux'' [''apt-get''] (reports (''13.0.112'' @ [CHR 0x0A])))
         \<lparr>skip_deps = False, skip_build = False, test = False\<rparr> (start [])
     = (Returned,
        \<lparr>world = [pkg_config_query],
         trace =
           [Print banner,
            Print ''[green]Detected platform: ubuntu (apt)[/green]'',
            Exec pkg_config_query None (done_ok (''13.0.112'' @ [CHR 0x0A])),
            Print ''[green]SUCCESS: notcurses 3.0.11 already installed[/green]'']\<rparr>)
   \<and> py_in ''3.0.11'' (stdout (done_ok ''3.0.11-rc1''))
   \<and> main (host ''Darwin'' [] (reports ''3.0.11-rc1''))
         \<lparr>skip_deps = False, skip_build = False, test = False\<rparr> (start [])
     = (Returned,
        \<lparr>world = [pkg_config_query],
         trace =
           [Print banner,
            Print ''[green]Detected platform: macos (brew)[/green]'',
            Exec pkg_config_query None (done_ok ''3.0.11-rc1''),
            Print ''[green]SUCCESS: notcurses 3.0.11 already installed[/green]'']\<rparr>)"
proof -
  let ?f = "\<lparr>skip_deps = False, skip_build = False, test = False\<rparr>"
  let ?h1 = "host ''Linux'' [''apt-get''] (reports (''13.0.112'' @ [CHR 0x0A]))"
  let ?h2 = "host ''Darwin'' [] (reports ''3.0.11-rc1'')"
  have d1: "detect_platform ?h1 [] = (''ubuntu'', ''apt'')"
    by (simp add: detect_platform_def check_command_exists_def host_def lower_Linux Let_def)
  have d2: "detect_platform ?h2 [] = (''macos'', ''brew'')"
    by (simp add: detect_platform_def check_command_exists_def host_def lower_Darwin Let_def)
  have u1: "fst (detect_platform ?h1 []) \<noteq> ''unknown''" using d1 by simp
  have u2: "fst (detect_platform ?h2 []) \<noteq> ''unknown''" using d2 by simp
  have s1: "spawn ?h1 [] pkg_config_query None
              = (done_ok (''13.0.112'' @ [CHR 0x0A]), [pkg_config_query])"
    by (simp add: host_def reports_def)
  have s2: "spawn ?h2 [] pkg_config_query None = (done_ok ''3.0.11-rc1'', [pkg_config_query])"
    by (simp add: host_def reports_def)
  have r1: "returncode (done_ok (''13.0.112'' @ [CHR 0x0A])) = 0"
    and r2: "returncode (done_ok ''3.0.11-rc1'') = 0"
    by (simp_all add: done_ok_def)
  have i1: "py_in ''3.0.11'' (stdout (done_ok (''13.0.112'' @ [CHR 0x0A])))"
    and i2: "py_in ''3.0.11'' (stdout (done_ok ''3.0.11-rc1''))"
    by (simp_all add: done_ok_def)
  from already_installed_fast_path [OF u1 s1 r1 i1, of ?f]
    already_installed_fast_path [OF u2 s2 r2 i2, of ?f] i1 i2 d1 d2
  show ?thesis by simp
qed

text \<open>
  C10. The orchestrator enters the source builder only when \<^verbatim>\<open>--skip-build\<close> is unset and
  the platform name is neither \<open>arch\<close> nor \<open>macos\<close>; on \<open>arch\<close> and \<open>macos\<close> it never
  enters it, whatever the flags.
\<close>

theorem build_only_off_arch_macos:
  "(Build_notcurses \<in> set (calls (trace (snd (main env f (start w))))) \<longrightarrow>
      \<not> skip_build f \<and> fst (detect_platform env w) \<notin> {''arch'', ''macos''})
   \<and> (fst (detect_platform env w) \<in> {''arch'', ''macos''} \<longrightarrow>
      Build_notcurses \<notin> set (calls (trace (snd (main env f (start w))))))"
proof -
  have main: "Build_notcurses \<in> set (calls (trace (snd (main env f (start w))))) \<longrightarrow>
      \<not> skip_build f \<and> fst (detect_platform env w) \<notin> {''arch'', ''macos''}"
  proof (cases "fst (detect_platform env w) = ''unknown''")
    case True
    then have "calls (events_since (start w) (snd (main env f (start w)))) = []"
      using main_unknown [of env "start w" f] by (simp add: start_def)
    then show ?thesis by (simp add: events_since_def start_def)
  next
    case False
    obtain pn pm where dp: "detect_platform env w = (pn, pm)" by fastforce
    obtain p w' where sp: "spawn env w pkg_config_query None = (p, w')" by fastforce
    have pn: "pn \<noteq> ''unknown''" "fst (detect_platform env w) = pn"
      using False dp by simp_all
    let ?a = "[Print banner,
                Print (''[green]Detected platform: '' @ pn @ '' ('' @ pm @ '')[/green]''),
                Exec pkg_config_query None p,
                Print ''[green]SUCCESS: notcurses 3.0.11 already installed[/green]'']"
    let ?b = "[Print banner,
                Print (''[green]Detected platform: '' @ pn @ '' ('' @ pm @ '')[/green]''),
                Exec pkg_config_query None p]"
    obtain ea where ea: "trace (snd (stages env f pn pm \<lparr>world = w', trace = ?a\<rparr>)) = ?a @ ea"
      "Build_notcurses \<in> set (calls ea) \<longrightarrow> \<not> skip_build f \<and> pn \<notin> {''arch'', ''macos''}"
      using stages_trace [of env f pn pm "\<lparr>world = w', trace = ?a\<rparr>"] by auto
    obtain eb where eb: "trace (snd (stages env f pn pm \<lparr>world = w', trace = ?b\<rparr>)) = ?b @ eb"
      "Build_notcurses \<in> set (calls eb) \<longrightarrow> \<not> skip_build f \<and> pn \<notin> {''arch'', ''macos''}"
      using stages_trace [of env f pn pm "\<lparr>world = w', trace = ?b\<rparr>"] by auto
    consider (fast) "returncode p = 0" "py_in ''3.0.11'' (stdout p)" "\<not> test f"
      | (again) "returncode p = 0" "py_in ''3.0.11'' (stdout p)" "test f"
      | (install) "\<not> (returncode p = 0 \<and> py_in ''3.0.11'' (stdout p))"
      by blast
    then show ?thesis
    proof cases
      case fast
      have "trace (snd (main env f (start w))) = ?a"
        unfolding main_fast [OF dp pn(1) sp fast] by simp
      then show ?thesis by simp
    next
      case again
      have "trace (snd (main env f (start w))) = ?a @ ea"
        unfolding main_again [OF dp pn(1) sp again] by (rule ea(1))
      then show ?thesis using ea(2) pn(2) by (simp add: calls_append)
    next
      case install
      have "trace (snd (main env f (start w))) = ?b @ eb"
        unfolding main_install [OF dp pn(1) sp install] by (rule eb(1))
      then show ?thesis using eb(2) pn(2) by (simp add: calls_append)
    qed
  qed
  then show ?thesis by blast
qed

theorem build_only_off_arch_macos_witness:
  "fst (detect_platform (host ''Linux'' [''pacman''] (fails_at pkg_config_query ''not found'')) [])
     = ''arch''
   \<and> Build_notcurses \<notin> set (calls (trace (snd (main
         (host ''Linux'' [''pacman''] (fails_at pkg_config_query ''not found''))
         \<lparr>skip_deps = False, skip_build = False, test = False\<rparr> (start []))))) 
   \<and> fst (detect_platform (host ''Linux'' [''apt-get''] (fails_at pkg_config_query ''not found'')) [])
     = ''ubuntu''
   \<and> calls (trace (snd (main
         (host ''Linux'' [''apt-get''] (fails_at pkg_config_query ''not found''))
         \<lparr>skip_deps = False, skip_build = False, test = False\<rparr> (start []))))
     = [Install_dependencies, Build_notcurses]"
proof -
  let ?f = "\<lparr>skip_deps = False, skip_build = False, test = False\<rparr>"
  let ?h1 = "host ''Linux'' [''pacman''] (fails_at pkg_config_query ''not found'')"
  let ?h2 = "host ''Linux'' [''apt-get''] (fails_at pkg_config_query ''not found'')"
  have d1: "detect_platform ?h1 [] = (''arch'', ''pacman'')"
    by (simp add: detect_platform_def check_command_exists_def host_def lower_Linux Let_def)
  have d2: "detect_platform ?h2 [] = (''ubuntu'', ''apt'')"
    by (simp add: detect_platform_def check_command_exists_def host_def lower_Linux Let_def)
  have c2: "calls (trace (snd (main ?h2 ?f (start [])))) = [Install_dependencies, Build_notcurses]"
    by (simp add: main_def stages_def deps_stage_def build_stage_def test_stage_def
        install_dependencies_def deps_def commands_def build_notcurses_def build_body_def
        detect_platform_def check_command_exists_def run_command_eq console_print_def emit_def
        start_def host_def fails_at_def done_ok_def done_failed_def lower_Linux str_4
        pkg_config_query_def Let_def)
  from build_only_off_arch_macos [of ?h1 ?f "[]"] build_only_off_arch_macos [of ?h2 ?f "[]"]
    c2 d1 d2
  show ?thesis by simp
qed

text \<open>
  The announcement of the verification is printed by the verification alone, and once
  it is reached the way the stages end is decided by the return code of its query.
\<close>

lemma install_dependencies_quiet:
  "\<exists>evs. trace (snd (install_dependencies env pn pm s)) = trace s @ evs
         \<and> Print ''[blue]Testing installation...[/blue]'' \<notin> set evs"
  by (simp add: install_dependencies_def run_command_eq console_print_def emit_def Let_def
      split: option.splits)

lemma build_notcurses_quiet_unfold:
  assumes "mkdtemp env (world s) = (d, w1)"
    and "nd = path_join env d ''notcurses''"
    and "bd = path_join env nd ''build''"
    and "spawn env w1 ''git clone https://github.com/dankamongmen/notcurses.git'' (Some d) = (p1, w2)"
    and "spawn env w2 ''git checkout v3.0.11'' (Some nd) = (p2, w3)"
    and "spawn env (makedirs env w3 bd) ''cmake .. -DCMAKE_BUILD_TYPE=Release'' (Some bd) = (p3, w4)"
    and "spawn env w4 (make_command env) (Some bd) = (p4, w5)"
    and "spawn env w5 ''sudo make install'' (Some bd) = (p5, w6)"
    and "spawn env w6 ''sudo ldconfig'' None = (p6, w7)"
  shows "Print ''[blue]Testing installation...[/blue]''
           \<notin> set (events_since s (snd (build_notcurses env s)))"
  using assms
  by (simp add: build_notcurses_def build_body_def run_command_eq console_print_def
        emit_def make_command_def events_since_def Let_def)

lemma build_notcurses_quiet:
  "\<exists>evs. trace (snd (build_notcurses env s)) = trace s @ evs
         \<and> Print ''[blue]Testing installation...[/blue]'' \<notin> set evs"
proof -
  define nd where "nd = path_join env (fst (mkdtemp env (world s))) ''notcurses''"
  define bd where "bd = path_join env nd ''build''"
  obtain d w1 where 0: "mkdtemp env (world s) = (d, w1)" by fastforce
  obtain p1 w2 where 1:
    "spawn env w1 ''git clone https://github.com/dankamongmen/notcurses.git'' (Some d) = (p1, w2)"
    by fastforce
  obtain p2 w3 where 2: "spawn env w2 ''git checkout v3.0.11'' (Some nd) = (p2, w3)"
    by fastforce
  obtain p3 w4 where 3:
    "spawn env (makedirs env w3 bd) ''cmake .. -DCMAKE_BUILD_TYPE=Release'' (Some bd) = (p3, w4)"
    by fastforce
  obtain p4 w5 where 4: "spawn env w4 (make_command env) (Some bd) = (p4, w5)" by fastforce
  obtain p5 w6 where 5: "spawn env w5 ''sudo make install'' (Some bd) = (p5, w6)" by fastforce
  obtain p6 w7 where 6: "spawn env w6 ''sudo ldconfig'' None = (p6, w7)" by fastforce
  have nd: "nd = path_join env d ''notcurses''" by (simp add: nd_def 0)
  note q = build_notcurses_quiet_unfold [OF 0 nd bd_def 1 2 3 4 5 6]
  note f = build_notcurses_calls_unfold [OF 0 nd bd_def 1 2 3 4 5 6]
  have "trace (snd (build_notcurses env s)) =
          trace s @ events_since s (snd (build_notcurses env s))"
    unfolding events_since_def using f(1) by (metis append_take_drop_id)
  with q show ?thesis by blast
qed

lemma deps_stage_quiet:
  "\<exists>evs. trace (snd (deps_stage env f pn pm s)) = trace s @ evs
         \<and> Print ''[blue]Testing installation...[/blue]'' \<notin> set evs"
proof (cases "skip_deps f")
  case True
  then show ?thesis by (simp add: deps_stage_def)
next
  case False
  obtain evs where e: "trace (snd (install_dependencies env pn pm s)) = trace s @ evs"
    "Print ''[blue]Testing installation...[/blue]'' \<notin> set evs"
    using install_dependencies_quiet by blast
  have "\<exists>t. trace (snd (deps_stage env f pn pm s)) = trace s @ (evs @ [Print t])
          \<and> t \<noteq> ''[blue]Testing installation...[/blue]''"
    using False e(1) by (simp add: deps_stage_def console_print_def emit_def case_prod_beta)
  then obtain t where "trace (snd (deps_stage env f pn pm s)) = trace s @ (evs @ [Print t])"
    "t \<noteq> ''[blue]Testing installation...[/blue]''"
    by blast
  moreover from this e(2)
  have "Print ''[blue]Testing installation...[/blue]'' \<notin> set (evs @ [Print t])"
    by (simp del: list.inject)
  ultimately show ?thesis by blast
qed

lemma build_stage_quiet:
  "\<exists>evs. trace (snd (build_stage env f pn s)) = trace s @ evs
         \<and> Print ''[blue]Testing installation...[/blue]'' \<notin> set evs"
proof (cases "\<not> skip_build f \<and> pn \<notin> set [''arch'', ''macos'']")
  case False
  then have "build_stage env f pn s = (None, s)" by (auto simp add: build_stage_def)
  then show ?thesis by simp
next
  case True
  obtain evs where e: "trace (snd (build_notcurses env s)) = trace s @ evs"
    "Print ''[blue]Testing installation...[/blue]'' \<notin> set evs"
    using build_notcurses_quiet by blast
  have "\<exists>t. trace (snd (build_stage env f pn s)) = trace s @ (evs @ [Print t])
          \<and> t \<noteq> ''[blue]Testing installation...[/blue]''"
    using True e(1) by (simp add: build_stage_def console_print_def emit_def case_prod_beta)
  then obtain t where "trace (snd (build_stage env f pn s)) = trace s @ (evs @ [Print t])"
    "t \<noteq> ''[blue]Testing installation...[/blue]''"
    by blast
  moreover from this e(2)
  have "Print ''[blue]Testing installation...[/blue]'' \<notin> set (evs @ [Print t])"
    by (simp del: list.inject)
  ultimately show ?thesis by blast
qed

lemma test_stage_run:
  assumes "test f" and "spawn env (world s) pkg_config_query None = (p, w')"
  shows "test_stage env f s =
     (if returncode p = 0
      then (None,
            \<lparr>world = w',
             trace = trace s @
               [Print ''[blue]Testing installation...[/blue]'',
                Exec pkg_config_query None p,
                Print (''[green]SUCCESS: notcurses '' @ py_strip (stdout p) @
                       '' detected[/green]'')]\<rparr>)
      else (Some (SysExit 1),
            \<lparr>world = w',
             trace = trace s @
               [Print ''[blue]Testing installation...[/blue]'',
                Exec pkg_config_query None p,
                Print ''[red]ERROR: Installation verification failed[/red]'']\<rparr>))"
  using assms
  by (simp add: test_stage_def run_command_eq console_print_def emit_def Let_def)

lemma stages_verification:
  assumes "test f" and "stages env f pn pm s = (r, s')"
    and "Print ''[blue]Testing installation...[/blue]'' \<notin> set (trace s)"
    and "Print ''[blue]Testing installation...[/blue]'' \<in> set (trace s')"
  shows "last (shell_commands (trace s')) = pkg_config_query
     \<and> exit_code r = (if returncode (last (shell_results (trace s'))) = 0 then 0 else 1)"
proof -
  obtain r1 s1 where d: "deps_stage env f pn pm s = (r1, s1)" by fastforce
  obtain r2 s2 where b: "build_stage env f pn s1 = (r2, s2)" by fastforce
  obtain p w' where sp: "spawn env (world s2) pkg_config_query None = (p, w')" by fastforce
  obtain e1 where e1: "trace s1 = trace s @ e1"
    "Print ''[blue]Testing installation...[/blue]'' \<notin> set e1"
    using deps_stage_quiet [of env f pn pm s] d by auto
  obtain e2 where e2: "trace s2 = trace s1 @ e2"
    "Print ''[blue]Testing installation...[/blue]'' \<notin> set e2"
    using build_stage_quiet [of env f pn s1] b by auto
  note t = test_stage_run [OF assms(1) sp]
  consider (a) x where "r1 = Some x" | (b) x where "r1 = None" "r2 = Some x"
    | (c) "r1 = None" "r2 = None" "returncode p = 0"
    | (d) "r1 = None" "r2 = None" "returncode p \<noteq> 0"
    by (cases r1; cases r2) auto
  then show ?thesis
  proof cases
    case a
    then have "s' = s1" using d assms(2) by (simp add: stages_def)
    then have False using e1 assms(3,4) by simp
    then show ?thesis ..
  next
    case b
    then have "s' = s2" using d \<open>build_stage env f pn s1 = (r2, s2)\<close> assms(2)
      by (simp add: stages_def)
    then have False using e1 e2 assms(3,4) by simp
    then show ?thesis ..
  next
    case c
    have ts: "test_stage env f s2 =
        (None,
            \<lparr>world = w',
             trace = trace s2 @
               [Print ''[blue]Testing installation...[/blue]'',
                Exec pkg_config_query None p,
                Print (''[green]SUCCESS: notcurses '' @ py_strip (stdout p) @
                       '' detected[/green]'')]\<rparr>)"
      unfolding t using c(3) by (rule if_P)
    have "r = Returned"
      and "trace s' = trace s2 @
               [Print ''[blue]Testing installation...[/blue]'',
                Exec pkg_config_query None p,
                Print (''[green]SUCCESS: notcurses '' @ py_strip (stdout p) @
                       '' detected[/green]''),
                Print complete_text]"
      using assms(2) c(1,2) d \<open>build_stage env f pn s1 = (r2, s2)\<close> ts
      by (auto simp add: stages_def console_print_def emit_def)
    then show ?thesis
      using c(3) by (simp add: shell_commands_append shell_results_append)
  next
    case d
    have ts: "test_stage env f s2 =
        (Some (SysExit 1),
            \<lparr>world = w',
             trace = trace s2 @
               [Print ''[blue]Testing installation...[/blue]'',
                Exec pkg_config_query None p,
                Print ''[red]ERROR: Installation verification failed[/red]'']\<rparr>)"
      unfolding t using d(3) by (rule if_not_P)
    have "r = SysExit 1"
      and "trace s' = trace s2 @
               [Print ''[blue]Testing installation...[/blue]'',
                Exec pkg_config_query None p,
                Print ''[red]ERROR: Installation verification failed[/red]'']"
      using assms(2) d(1,2) \<open>deps_stage env f pn pm s = (r1, s1)\<close>
        \<open>build_stage env f pn s1 = (r2, s2)\<close> ts
      by (auto simp add: stages_def)
    then show ?thesis
      using d(3) by (simp add: shell_commands_append shell_results_append)
  qed
qed

lemma main_unknown_quiet:
  "fst (detect_platform env w) = ''unknown'' \<Longrightarrow>
     Print ''[blue]Testing installation...[/blue]'' \<notin> set (trace (snd (main env f (start w))))"
  by (simp add: main_def start_def console_print_def emit_def banner_def case_prod_beta Let_def)

text \<open>
  C1, as the code has it. With \<^verbatim>\<open>--test\<close> the exit code is 0 or 1. It is 0 only when
  the last command run is the version query and that query returned 0. Whenever the
  verification is reached (its announcement is in the trace), the last command run is the
  version query and the exit code is 0 if that query returned 0 and 1 otherwise: return
  code 0 suffices, whatever version the query printed. The verification itself, from any
  state where the query returns 0, goes on without exiting and prints the version,
  stripped of white space, in its success message; the version is compared with nothing.
\<close>

theorem test_exit_code:
  assumes "test f" and "main env f (start w) = (r, s')"
  shows "(exit_code r = 0 \<or> exit_code r = 1)
     \<and> (exit_code r = 0 \<longrightarrow>
          (\<exists>tr p. trace s' = tr @
               [Exec pkg_config_query None p,
                Print (''[green]SUCCESS: notcurses '' @ py_strip (stdout p) @ '' detected[/green]''),
                Print complete_text]
             \<and> returncode p = 0))
     \<and> (Print ''[blue]Testing installation...[/blue]'' \<in> set (trace s') \<longrightarrow>
          last (shell_commands (trace s')) = pkg_config_query
          \<and> exit_code r = (if returncode (last (shell_results (trace s'))) = 0 then 0 else 1))
     \<and> (spawn env (world sv) pkg_config_query None = (pv, wv) \<and> returncode pv = 0 \<longrightarrow>
          test_stage env f sv =
            (None,
             \<lparr>world = wv,
              trace = trace sv @
                [Print ''[blue]Testing installation...[/blue]'',
                 Exec pkg_config_query None pv,
                 Print (''[green]SUCCESS: notcurses '' @ py_strip (stdout pv) @
                        '' detected[/green]'')]\<rparr>))"
proof -
  have first: "(exit_code r = 0 \<or> exit_code r = 1)
     \<and> (exit_code r = 0 \<longrightarrow>
          (\<exists>tr p. trace s' = tr @
               [Exec pkg_config_query None p,
                Print (''[green]SUCCESS: notcurses '' @ py_strip (stdout p) @ '' detected[/green]''),
                Print complete_text]
             \<and> returncode p = 0))
     \<and> (Print ''[blue]Testing installation...[/blue]'' \<in> set (trace s') \<longrightarrow>
          last (shell_commands (trace s')) = pkg_config_query
          \<and> exit_code r = (if returncode (last (shell_results (trace s'))) = 0 then 0 else 1))"
  proof (cases "fst (detect_platform env w) = ''unknown''")
    case True
    then have "fst (main env f (start w)) = SysExit 1"
      using main_unknown [of env "start w" f] by (simp add: start_def)
    then have "r = SysExit 1" using assms(2) by simp
    moreover have "Print ''[blue]Testing installation...[/blue]'' \<notin> set (trace s')"
      using main_unknown_quiet [OF True, of f] assms(2) by simp
    ultimately show ?thesis by simp
  next
    case False
    obtain pn pm where dp: "detect_platform env w = (pn, pm)" by fastforce
    obtain p w' where sp: "spawn env w pkg_config_query None = (p, w')" by fastforce
    have pn: "pn \<noteq> ''unknown''" using False dp by simp
    have "\<exists>s4. stages env f pn pm s4 = (r, s')
             \<and> Print ''[blue]Testing installation...[/blue]'' \<notin> set (trace s4)"
    proof (cases "returncode p = 0 \<and> py_in ''3.0.11'' (stdout p)")
      case True
      then have "returncode p = 0" "py_in ''3.0.11'' (stdout p)" by simp_all
      from main_again [OF dp pn sp this assms(1)] assms(2)
      have "stages env f pn pm
            \<lparr>world = w',
             trace =
               [Print banner,
                Print (''[green]Detected platform: '' @ pn @ '' ('' @ pm @ '')[/green]''),
                Exec pkg_config_query None p,
                Print ''[green]SUCCESS: notcurses 3.0.11 already installed[/green]'']\<rparr> = (r, s')"
        by simp
      moreover have "Print ''[blue]Testing installation...[/blue]'' \<notin> set (trace
            \<lparr>world = w',
             trace =
               [Print banner,
                Print (''[green]Detected platform: '' @ pn @ '' ('' @ pm @ '')[/green]''),
                Exec pkg_config_query None p,
                Print ''[green]SUCCESS: notcurses 3.0.11 already installed[/green]'']\<rparr>)"
        by (simp add: banner_def)
      ultimately show ?thesis by blast
    next
      case no: False
      from main_install [OF dp pn sp no, of f] assms(2)
      have "stages env f pn pm
            \<lparr>world = w',
             trace =
               [Print banner,
                Print (''[green]Detected platform: '' @ pn @ '' ('' @ pm @ '')[/green]''),
                Exec pkg_config_query None p]\<rparr> = (r, s')"
        by simp
      moreover have "Print ''[blue]Testing installation...[/blue]'' \<notin> set (trace
            \<lparr>world = w',
             trace =
               [Print banner,
                Print (''[green]Detected platform: '' @ pn @ '' ('' @ pm @ '')[/green]''),
                Exec pkg_config_query None p]\<rparr>)"
        by (simp add: banner_def)
      ultimately show ?thesis by blast
    qed
    then obtain s4 where s4: "stages env f pn pm s4 = (r, s')"
      "Print ''[blue]Testing installation...[/blue]'' \<notin> set (trace s4)" by blast
    from stages_test [OF assms(1) s4(1)] have
      st: "(r = Returned \<or> r = SysExit 1)"
      "r = Returned \<longrightarrow>
          (\<exists>tr p. trace s' = tr @
               [Exec pkg_config_query None p,
                Print (''[green]SUCCESS: notcurses '' @ py_strip (stdout p) @ '' detected[/green]''),
                Print complete_text]
             \<and> returncode p = 0)"
      by blast+
    have "exit_code r = 0 \<longrightarrow> r = Returned" using st(1) by auto
    moreover have "exit_code r = 0 \<or> exit_code r = 1" using st(1) by auto
    moreover note st(2) stages_verification [OF assms(1) s4]
    ultimately show ?thesis by blast
  qed
  have second: "spawn env (world sv) pkg_config_query None = (pv, wv) \<and> returncode pv = 0 \<longrightarrow>
          test_stage env f sv =
            (None,
             \<lparr>world = wv,
              trace = trace sv @
                [Print ''[blue]Testing installation...[/blue]'',
                 Exec pkg_config_query None pv,
                 Print (''[green]SUCCESS: notcurses '' @ py_strip (stdout pv) @
                        '' detected[/green]'')]\<rparr>)"
  proof
    assume a: "spawn env (world sv) pkg_config_query None = (pv, wv) \<and> returncode pv = 0"
    then have sp: "spawn env (world sv) pkg_config_query None = (pv, wv)"
      and rc: "returncode pv = 0" by simp_all
    show "test_stage env f sv =
            (None,
             \<lparr>world = wv,
              trace = trace sv @
                [Print ''[blue]Testing installation...[/blue]'',
                 Exec pkg_config_query None pv,
                 Print (''[green]SUCCESS: notcurses '' @ py_strip (stdout pv) @
                        '' detected[/green]'')]\<rparr>)"
      unfolding test_stage_run [OF assms(1) sp] using rc by (rule if_P)
  qed
  from first second show ?thesis by blast
qed

theorem test_exit_code_witness:
  "test \<lparr>skip_deps = True, skip_build = True, test = True\<rparr>
   \<and> main (host ''Linux'' [''apt-get''] (fails_at pkg_config_query ''Package notcurses was not found''))
         \<lparr>skip_deps = True, skip_build = True, test = True\<rparr> (start [])
     = (SysExit 1,
        \<lparr>world = [pkg_config_query, pkg_config_query],
         trace =
           [Print banner,
            Print ''[green]Detected platform: ubuntu (apt)[/green]'',
            Exec pkg_config_query None (done_failed ''Package notcurses was not found''),
            Print ''[blue]Testing installation...[/blue]'',
            Exec pkg_config_query None (done_failed ''Package notcurses was not found''),
            Print ''[red]ERROR: Installation verification failed[/red]'']\<rparr>)
   \<and> main (host ''Linux'' [''apt-get''] (reports (''3.0.11'' @ [CHR 0x0A])))
         \<lparr>skip_deps = True, skip_build = True, test = True\<rparr> (start [])
     = (Returned,
        \<lparr>world = [pkg_config_query, pkg_config_query],
         trace =
           [Print banner,
            Print ''[green]Detected platform: ubuntu (apt)[/green]'',
            Exec pkg_config_query None (done_ok (''3.0.11'' @ [CHR 0x0A])),
            Print ''[green]SUCCESS: notcurses 3.0.11 already installed[/green]'',
            Print ''[blue]Testing installation...[/blue]'',
            Exec pkg_config_query None (done_ok (''3.0.11'' @ [CHR 0x0A])),
            Print ''[green]SUCCESS: notcurses 3.0.11 detected[/green]'',
            Print complete_text]\<rparr>)
   \<and> main (host ''Linux'' [''apt-get''] (reports (''2.4.9'' @ [CHR 0x0A])))
         \<lparr>skip_deps = True, skip_build = True, test = True\<rparr> (start [])
     = (Returned,
        \<lparr>world = [pkg_config_query, pkg_config_query],
         trace =
           [Print banner,
            Print ''[green]Detected platform: ubuntu (apt)[/green]'',
            Exec pkg_config_query None (done_ok (''2.4.9'' @ [CHR 0x0A])),
            Print ''[blue]Testing installation...[/blue]'',
            Exec pkg_config_query None (done_ok (''2.4.9'' @ [CHR 0x0A])),
            Print ''[green]SUCCESS: notcurses 2.4.9 detected[/green]'',
            Print complete_text]\<rparr>)
   \<and> returncode (done_ok (''2.4.9'' @ [CHR 0x0A])) = 0
   \<and> test_stage (host ''Linux'' [''apt-get''] (reports (''2.4.9'' @ [CHR 0x0A])))
         \<lparr>skip_deps = True, skip_build = True, test = True\<rparr> (start [])
     = (None,
        \<lparr>world = [pkg_config_query],
         trace =
           [Print ''[blue]Testing installation...[/blue]'',
            Exec pkg_config_query None (done_ok (''2.4.9'' @ [CHR 0x0A])),
            Print ''[green]SUCCESS: notcurses 2.4.9 detected[/green]'']\<rparr>)"
proof -
  let ?f = "\<lparr>skip_deps = True, skip_build = True, test = True\<rparr>"
  let ?h = "host ''Linux'' [''apt-get''] (reports (''2.4.9'' @ [CHR 0x0A]))"
  have t: "test ?f" by simp
  have bad: "main (host ''Linux'' [''apt-get''] (fails_at pkg_config_query ''Package notcurses was not found''))
         ?f (start [])
     = (SysExit 1,
        \<lparr>world = [pkg_config_query, pkg_config_query],
         trace =
           [Print banner,
            Print ''[green]Detected platform: ubuntu (apt)[/green]'',
            Exec pkg_config_query None (done_failed ''Package notcurses was not found''),
            Print ''[blue]Testing installation...[/blue]'',
            Exec pkg_config_query None (done_failed ''Package notcurses was not found''),
            Print ''[red]ERROR: Installation verification failed[/red]'']\<rparr>)"
    by (simp add: main_def stages_def deps_stage_def build_stage_def test_stage_def
        detect_platform_def check_command_exists_def run_command_eq console_print_def emit_def
        start_def host_def fails_at_def done_failed_def lower_Linux Let_def)
  have good: "main (host ''Linux'' [''apt-get''] (reports (''3.0.11'' @ [CHR 0x0A])))
         ?f (start [])
     = (Returned,
        \<lparr>world = [pkg_config_query, pkg_config_query],
         trace =
           [Print banner,
            Print ''[green]Detected platform: ubuntu (apt)[/green]'',
            Exec pkg_config_query None (done_ok (''3.0.11'' @ [CHR 0x0A])),
            Print ''[green]SUCCESS: notcurses 3.0.11 already installed[/green]'',
            Print ''[blue]Testing installation...[/blue]'',
            Exec pkg_config_query None (done_ok (''3.0.11'' @ [CHR 0x0A])),
            Print ''[green]SUCCESS: notcurses 3.0.11 detected[/green]'',
            Print complete_text]\<rparr>)"
    by (simp add: main_def stages_def deps_stage_def build_stage_def test_stage_def
        detect_platform_def check_command_exists_def run_command_eq console_print_def emit_def
        start_def host_def reports_def done_ok_def lower_Linux py_strip_def py_isspace_def Let_def)
  have other: "main ?h ?f (start [])
     = (Returned,
        \<lparr>world = [pkg_config_query, pkg_config_query],
         trace =
           [Print banner,
            Print ''[green]Detected platform: ubuntu (apt)[/green]'',
            Exec pkg_config_query None (done_ok (''2.4.9'' @ [CHR 0x0A])),
            Print ''[blue]Testing installation...[/blue]'',
            Exec pkg_config_query None (done_ok (''2.4.9'' @ [CHR 0x0A])),
            Print ''[green]SUCCESS: notcurses 2.4.9 detected[/green]'',
            Print complete_text]\<rparr>)"
    by (simp add: main_def stages_def deps_stage_def build_stage_def test_stage_def
        detect_platform_def check_command_exists_def run_command_eq console_print_def emit_def
        start_def host_def reports_def done_ok_def lower_Linux py_strip_def py_isspace_def Let_def)
  have sp: "spawn ?h (world (start [])) pkg_config_query None
            = (done_ok (''2.4.9'' @ [CHR 0x0A]), [pkg_config_query])"
    by (simp add: host_def reports_def start_def)
  have rc: "returncode (done_ok (''2.4.9'' @ [CHR 0x0A])) = 0" by (simp add: done_ok_def)
  have strip: "py_strip (stdout (done_ok (''2.4.9'' @ [CHR 0x0A]))) = ''2.4.9''"
    by (simp add: done_ok_def py_strip_def py_isspace_def)
  note th = test_exit_code [OF t other, where sv = "start []"
      and pv = "done_ok (''2.4.9'' @ [CHR 0x0A])" and wv = "[pkg_config_query]"]
  have "test_stage ?h ?f (start []) =
          (None,
           \<lparr>world = [pkg_config_query],
            trace = trace (start ([] :: string list)) @
              [Print ''[blue]Testing installation...[/blue]'',
               Exec pkg_config_query None (done_ok (''2.4.9'' @ [CHR 0x0A])),
               Print (''[green]SUCCESS: notcurses '' @
                      py_strip (stdout (done_ok (''2.4.9'' @ [CHR 0x0A]))) @
                      '' detected[/green]'')]\<rparr>)"
    by (rule th [THEN conjunct2, THEN conjunct2, THEN conjunct2, THEN mp,
          OF conjI [OF sp rc]])
  then have ts: "test_stage ?h ?f (start []) =
          (None,
           \<lparr>world = [pkg_config_query],
            trace =
              [Print ''[blue]Testing installation...[/blue]'',
               Exec pkg_config_query None (done_ok (''2.4.9'' @ [CHR 0x0A])),
               Print ''[green]SUCCESS: notcurses 2.4.9 detected[/green]'']\<rparr>)"
    unfolding strip by (simp add: start_def)
  from test_exit_code [OF t bad] test_exit_code [OF t good] t bad good other rc ts
  show ?thesis by simp
qed

text \<open>
  A host whose version query succeeds and reports 3.0.10: with \<^verbatim>\<open>--test\<close> the
  orchestrator reports that version as detected and ends with exit code 0.
\<close>

theorem verification_accepts_other_version:
  "test \<lparr>skip_deps = True, skip_build = True, test = True\<rparr>
   \<and> exit_code (fst (main (host ''Linux'' [''apt-get''] (reports (''3.0.10'' @ [CHR 0x0A])))
         \<lparr>skip_deps = True, skip_build = True, test = True\<rparr> (start []))) = 0
   \<and> trace (snd (main (host ''Linux'' [''apt-get''] (reports (''3.0.10'' @ [CHR 0x0A])))
         \<lparr>skip_deps = True, skip_build = True, test = True\<rparr> (start [])))
     = [Print banner,
        Print ''[green]Detected platform: ubuntu (apt)[/green]'',
        Exec pkg_config_query None (done_ok (''3.0.10'' @ [CHR 0x0A])),
        Print ''[blue]Testing installation...[/blue]'',
        Exec pkg_config_query None (done_ok (''3.0.10'' @ [CHR 0x0A])),
        Print ''[green]SUCCESS: notcurses 3.0.10 detected[/green]'',
        Print complete_text]
   \<and> py_strip (stdout (done_ok (''3.0.10'' @ [CHR 0x0A]))) \<noteq> ''3.0.11''"
  by (simp add: main_def stages_def deps_stage_def build_stage_def test_stage_def
      detect_platform_def check_command_exists_def run_command_eq console_print_def emit_def
      start_def host_def reports_def done_ok_def lower_Linux py_strip_def py_isspace_def Let_def)

end
